theory Spec2Isabelle
  imports
    Complex_Main
    "HOL-Library.AList"
    "HOL-Library.Log_Nat"
    "HOL-Library.Multiset"
    "HOL-Library.Product_Lexorder"
    "HOL-Library.List_Lexorder"
    "HOL-Library.Char_ord"
begin

section \<open>The recognition engine of mac-recorder: data model\<close>

text \<open>
  The development follows \<^verbatim>\<open>mac_recorder_engine/asr/engine.py\<close> and
  \<^verbatim>\<open>mac_recorder_engine/transcriber.py\<close>.

  Language codes, model names and exception messages are \<open>string\<close>s (read as the UTF-8
  bytes of the Python \<^verbatim>\<open>str\<close>: equality and the search for an ASCII substring agree
  with Python's on code points). Recognised text is stripped and measured with
  \<^verbatim>\<open>len\<close>, which count code points, so it is a list of code points.
\<close>

type_synonym unicode = "nat list"

definition ascii :: "string \<Rightarrow> unicode" where
  "ascii s = map of_char s"

text \<open>
  An exception raised inside a library (onnx_asr, numpy): its class and what
  \<^verbatim>\<open>str(error)\<close> renders.
\<close>

datatype exn = Exn (exn_class: string) (exn_str: string)

text \<open>
  What a call of the engine can raise, by the place that raises it:
  \<^verbatim>\<open>ValueError(f"No model loaded for language: {lang}")\<close> in \<^verbatim>\<open>recognize\<close>,
  \<^verbatim>\<open>ValueError(f"Unknown language: {lang}")\<close> in \<^verbatim>\<open>_model_name_for_language\<close>,
  the \<^verbatim>\<open>KeyError\<close> of \<^verbatim>\<open>self._models[lang]\<close>, and an exception that comes out of
  a library call or a built-in operator and is passed on.
\<close>

datatype error =
    NoModelLoaded string
  | UnknownLanguage string
  | KeyError string
  | Raised exn

fun error_class :: "error \<Rightarrow> string" where
  "error_class (NoModelLoaded lang) = ''ValueError''"
| "error_class (UnknownLanguage lang) = ''ValueError''"
| "error_class (KeyError k) = ''KeyError''"
| "error_class (Raised e) = exn_class e"

fun error_str :: "error \<Rightarrow> string" where
  "error_str (NoModelLoaded lang) = ''No model loaded for language: '' @ lang"
| "error_str (UnknownLanguage lang) = ''Unknown language: '' @ lang"
| "error_str (KeyError k) = k"
| "error_str (Raised e) = exn_str e"

text \<open>
  \<^verbatim>\<open>load_kwargs\<close>: empty, or \<^verbatim>\<open>{"providers": ["CPUExecutionProvider"]}\<close>.
\<close>

datatype providers = DefaultProviders | CPUExecutionProviderOnly

text \<open>
  One item yielded by \<^verbatim>\<open>model.recognize\<close>: an object that may or may not have the
  attributes \<^verbatim>\<open>text\<close>, \<^verbatim>\<open>start\<close> and \<^verbatim>\<open>end\<close>, and that \<^verbatim>\<open>str\<close> renders.
  Time stamps are finite floats, kept as the rationals they denote.
\<close>

record raw_segment =
  raw_text :: "unicode option"
  raw_str :: unicode
  raw_start :: "rat option"
  raw_end :: "rat option"

text \<open>
  The dictionary that \<^verbatim>\<open>_run_recognition\<close> builds for one segment, with the key
  \<^verbatim>\<open>"source"\<close> that \<^verbatim>\<open>_with_source\<close> adds (absent until then).
\<close>

record segment =
  seg_start :: rat
  seg_end :: rat
  seg_text :: unicode
  seg_language :: string
  seg_source :: "string option"

text \<open>
  The three \<^verbatim>\<open>logger.warning\<close> calls of the two modules. The calls of
  \<^verbatim>\<open>logger.info\<close> are left out.
\<close>

datatype warning =
    LoadRetryWarning string exn
  | InferenceRetryWarning string exn
  | ChannelsWarning nat

text \<open>
  The log of what the engine did to the outside: every call into onnx_asr with its
  outcome, in order, and every warning.
\<close>

datatype ('m, 'v, 'f) event =
    LoadVad string "exn + 'v"
  | LoadModel string providers "exn + 'm"
  | WithVad 'm "'v option" "exn + 'm"
  | Recognize 'm "'f list" int "exn + raw_segment list"
  | Warning warning

text \<open>
  The onnx_asr library, which the repository only calls: \<^verbatim>\<open>onnx_asr.load_vad\<close>,
  \<^verbatim>\<open>onnx_asr.load_model\<close>, \<^verbatim>\<open>model.with_vad\<close> and \<^verbatim>\<open>model.recognize\<close>. Each
  may raise, and each may depend on and change a state \<open>'w\<close> of the library that the
  engine never sees. A recognizer that raises while its result is iterated is a
  recognizer that raises: the partial result is local to the caller and is dropped.
\<close>

record ('w, 'm, 'v, 'f) onnx_asr =
  load_vad :: "string \<Rightarrow> 'w \<Rightarrow> (exn + 'v) \<times> 'w"
  load_model :: "string \<Rightarrow> providers \<Rightarrow> 'w \<Rightarrow> (exn + 'm) \<times> 'w"
  with_vad :: "'m \<Rightarrow> 'v option \<Rightarrow> 'w \<Rightarrow> (exn + 'm) \<times> 'w"
  model_recognize :: "'m \<Rightarrow> 'f list \<Rightarrow> int \<Rightarrow> 'w \<Rightarrow> (exn + raw_segment list) \<times> 'w"

text \<open>
  The fields of an \<^verbatim>\<open>ASREngine\<close> object, together with the state of the library
  and the log. \<^verbatim>\<open>self._models\<close> is a Python dictionary, which iterates in insertion
  order: an association list, written with \<open>AList.update\<close> (an existing key keeps its
  place, a new one goes last) and read with \<open>map_of\<close>.
\<close>

record ('w, 'm, 'v, 'f) engine =
  russian_model_name :: string
  english_model_name :: string
  language :: string
  vad :: "'v option"
  models :: "(string \<times> 'm) list"
  cpu_only_languages :: "string set"
  world :: 'w
  trace :: "('m, 'v, 'f) event list"

section \<open>The engine\<close>

subsection \<open>Error signatures\<close>

text \<open>Python's \<^verbatim>\<open>needle in haystack\<close> on strings.\<close>

fun starts_with :: "'a list \<Rightarrow> 'a list \<Rightarrow> bool" where
  "starts_with [] hay = True"
| "starts_with (n # ns) [] = False"
| "starts_with (n # ns) (h # hs) = (n = h \<and> starts_with ns hs)"

fun contains :: "'a list \<Rightarrow> 'a list \<Rightarrow> bool" where
  "contains needle [] = (needle = [])"
| "contains needle (h # hs) = (starts_with needle (h # hs) \<or> contains needle hs)"

definition MODEL_PATH_EMPTY :: string where
  "MODEL_PATH_EMPTY = ''model_path must not be empty''"

definition INITIALIZER_SIGNATURE :: string where
  "INITIALIZER_SIGNATURE = ''Initializer::Initializer''"

definition COREML_PROVIDER :: string where
  "COREML_PROVIDER = ''CoreMLExecutionProvider''"

definition COREML_RUNTIME_ERROR :: string where
  "COREML_RUNTIME_ERROR = ''Unable to compute the prediction using a neural network model''"

definition should_retry_with_cpu :: "exn \<Rightarrow> bool" where
  "should_retry_with_cpu error =
     (let message = exn_str error
      in contains MODEL_PATH_EMPTY message \<and> contains INITIALIZER_SIGNATURE message)"

definition is_coreml_runtime_failure :: "exn \<Rightarrow> bool" where
  "is_coreml_runtime_failure error =
     (let message = exn_str error
      in contains COREML_PROVIDER message \<and> contains COREML_RUNTIME_ERROR message)"

subsection \<open>Calls into the library, logged\<close>

definition log_event ::
  "('m, 'v, 'f) event \<Rightarrow> ('w, 'm, 'v, 'f) engine \<Rightarrow> ('w, 'm, 'v, 'f) engine" where
  "log_event ev s = s\<lparr>trace := trace s @ [ev]\<rparr>"

definition call_load_vad ::
  "('w, 'm, 'v, 'f) onnx_asr \<Rightarrow> string \<Rightarrow> ('w, 'm, 'v, 'f) engine
     \<Rightarrow> (exn + 'v) \<times> ('w, 'm, 'v, 'f) engine" where
  "call_load_vad X name s =
     (case load_vad X name (world s) of
        (r, w) \<Rightarrow> (r, log_event (LoadVad name r) (s\<lparr>world := w\<rparr>)))"

definition call_load_model ::
  "('w, 'm, 'v, 'f) onnx_asr \<Rightarrow> string \<Rightarrow> providers \<Rightarrow> ('w, 'm, 'v, 'f) engine
     \<Rightarrow> (exn + 'm) \<times> ('w, 'm, 'v, 'f) engine" where
  "call_load_model X name p s =
     (case load_model X name p (world s) of
        (r, w) \<Rightarrow> (r, log_event (LoadModel name p r) (s\<lparr>world := w\<rparr>)))"

definition call_with_vad ::
  "('w, 'm, 'v, 'f) onnx_asr \<Rightarrow> 'm \<Rightarrow> 'v option \<Rightarrow> ('w, 'm, 'v, 'f) engine
     \<Rightarrow> (exn + 'm) \<times> ('w, 'm, 'v, 'f) engine" where
  "call_with_vad X m v s =
     (case with_vad X m v (world s) of
        (r, w) \<Rightarrow> (r, log_event (WithVad m v r) (s\<lparr>world := w\<rparr>)))"

definition call_recognize ::
  "('w, 'm, 'v, 'f) onnx_asr \<Rightarrow> 'm \<Rightarrow> 'f list \<Rightarrow> int \<Rightarrow> ('w, 'm, 'v, 'f) engine
     \<Rightarrow> (exn + raw_segment list) \<times> ('w, 'm, 'v, 'f) engine" where
  "call_recognize X m audio sample_rate s =
     (case model_recognize X m audio sample_rate (world s) of
        (r, w) \<Rightarrow> (r, log_event (Recognize m audio sample_rate r) (s\<lparr>world := w\<rparr>)))"

subsection \<open>\<^verbatim>\<open>ASREngine.__init__\<close> and \<^verbatim>\<open>ASREngine._load_model\<close>\<close>

definition ASREngine ::
  "string \<Rightarrow> string \<Rightarrow> string \<Rightarrow> 'w \<Rightarrow> ('w, 'm, 'v, 'f) engine" where
  "ASREngine russian_model english_model lang w =
     \<lparr> russian_model_name = russian_model,
       english_model_name = english_model,
       language = lang,
       vad = None,
       models = [],
       cpu_only_languages = {},
       world = w,
       trace = [] \<rparr>"

text \<open>
  Lines 82 and 83: \<^verbatim>\<open>model = model.with_vad(self._vad)\<close>,
  \<^verbatim>\<open>self._models[lang] = model\<close>.
\<close>

definition store_with_vad ::
  "('w, 'm, 'v, 'f) onnx_asr \<Rightarrow> string \<Rightarrow> 'm \<Rightarrow> ('w, 'm, 'v, 'f) engine
     \<Rightarrow> (error + unit) \<times> ('w, 'm, 'v, 'f) engine" where
  "store_with_vad X lang model s =
     (case call_with_vad X model (vad s) s of
        (Inl e, s1) \<Rightarrow> (Inl (Raised e), s1)
      | (Inr wrapped, s1) \<Rightarrow> (Inr (), s1\<lparr>models := AList.update lang wrapped (models s1)\<rparr>))"

definition ASREngine_load_model ::
  "('w, 'm, 'v, 'f) onnx_asr \<Rightarrow> string \<Rightarrow> string \<Rightarrow> bool \<Rightarrow> ('w, 'm, 'v, 'f) engine
     \<Rightarrow> (error + unit) \<times> ('w, 'm, 'v, 'f) engine" where
  "ASREngine_load_model X lang model_name force_cpu s =
     (let load_kwargs = (if force_cpu then CPUExecutionProviderOnly else DefaultProviders)
      in case call_load_model X model_name load_kwargs s of
           (Inl error, s1) \<Rightarrow>
             if force_cpu \<or> \<not> should_retry_with_cpu error then (Inl (Raised error), s1)
             else
               (case call_load_model X model_name CPUExecutionProviderOnly
                       (log_event (Warning (LoadRetryWarning model_name error)) s1) of
                  (Inl error2, s2) \<Rightarrow> (Inl (Raised error2), s2)
                | (Inr model, s2) \<Rightarrow>
                    store_with_vad X lang model
                      (s2\<lparr>cpu_only_languages := insert lang (cpu_only_languages s2)\<rparr>))
         | (Inr model, s1) \<Rightarrow>
             store_with_vad X lang model
               (if force_cpu
                then s1\<lparr>cpu_only_languages := insert lang (cpu_only_languages s1)\<rparr>
                else s1\<lparr>cpu_only_languages := cpu_only_languages s1 - {lang}\<rparr>))"

subsection \<open>Python strings: \<^verbatim>\<open>str.strip\<close> and \<^verbatim>\<open>str.join\<close>\<close>

text \<open>
  The code points that \<^verbatim>\<open>str.strip()\<close> removes: those of general category Zs or of
  bidirectional class WS, B or S.
\<close>

definition is_space :: "nat \<Rightarrow> bool" where
  "is_space c =
     ((9 \<le> c \<and> c \<le> 13) \<or> (28 \<le> c \<and> c \<le> 32) \<or> c = 133 \<or> c = 160 \<or> c = 5760
      \<or> (8192 \<le> c \<and> c \<le> 8202) \<or> c = 8232 \<or> c = 8233 \<or> c = 8239 \<or> c = 8287
      \<or> c = 12288)"

definition strip :: "unicode \<Rightarrow> unicode" where
  "strip s = rev (dropWhile is_space (rev (dropWhile is_space s)))"

fun join :: "unicode \<Rightarrow> unicode list \<Rightarrow> unicode" where
  "join sep [] = []"
| "join sep [t] = t"
| "join sep (t # u # ts) = t @ sep @ join sep (u # ts)"

subsection \<open>\<^verbatim>\<open>ASREngine._run_recognition\<close>\<close>

text \<open>\<^verbatim>\<open>seg.text if hasattr(seg, "text") else str(seg)\<close>\<close>

definition text_of :: "raw_segment \<Rightarrow> unicode" where
  "text_of seg = (case raw_text seg of Some t \<Rightarrow> t | None \<Rightarrow> raw_str seg)"

text \<open>\<^verbatim>\<open>getattr(seg, name, 0.0)\<close>\<close>

definition getattr_or_zero :: "rat option \<Rightarrow> rat" where
  "getattr_or_zero a = (case a of Some x \<Rightarrow> x | None \<Rightarrow> 0)"

fun collect_segments :: "string \<Rightarrow> raw_segment list \<Rightarrow> segment list" where
  "collect_segments lang [] = []"
| "collect_segments lang (seg # segs) =
     (let text = text_of seg
      in if strip text = [] then collect_segments lang segs
         else \<lparr> seg_start = getattr_or_zero (raw_start seg),
                seg_end = getattr_or_zero (raw_end seg),
                seg_text = strip text,
                seg_language = lang,
                seg_source = None \<rparr> # collect_segments lang segs)"

definition ASREngine_run_recognition ::
  "('w, 'm, 'v, 'f) onnx_asr \<Rightarrow> 'm \<Rightarrow> 'f list \<Rightarrow> int \<Rightarrow> string \<Rightarrow> ('w, 'm, 'v, 'f) engine
     \<Rightarrow> (exn + segment list) \<times> ('w, 'm, 'v, 'f) engine" where
  "ASREngine_run_recognition X model audio sample_rate lang s =
     (case call_recognize X model audio sample_rate s of
        (Inl e, s1) \<Rightarrow> (Inl e, s1)
      | (Inr segs, s1) \<Rightarrow> (Inr (collect_segments lang segs), s1))"

subsection \<open>\<^verbatim>\<open>ASREngine._detect_language\<close>\<close>

text \<open>
  \<^verbatim>\<open>audio[:k]\<close> for an integer \<open>k\<close>: the first \<open>k\<close> items, and for a negative \<open>k\<close>
  all but the last \<open>-k\<close>.
\<close>

definition slice_to :: "'a list \<Rightarrow> int \<Rightarrow> 'a list" where
  "slice_to xs k = (if 0 \<le> k then take (nat k) xs else take (length xs - nat (- k)) xs)"

text \<open>
  The body of the loop over \<^verbatim>\<open>self._models.items()\<close>, with the two variables the
  loop updates. An exception of the recognizer leaves both as they were.
\<close>

fun detect_loop ::
  "('w, 'm, 'v, 'f) onnx_asr \<Rightarrow> 'f list \<Rightarrow> int \<Rightarrow> (string \<times> 'm) list \<Rightarrow> string \<Rightarrow> nat
     \<Rightarrow> ('w, 'm, 'v, 'f) engine \<Rightarrow> string \<times> ('w, 'm, 'v, 'f) engine" where
  "detect_loop X sample sample_rate [] best_lang best_len s = (best_lang, s)"
| "detect_loop X sample sample_rate ((lang, model) # rest) best_lang best_len s =
     (case call_recognize X model sample sample_rate s of
        (Inl e, s1) \<Rightarrow> detect_loop X sample sample_rate rest best_lang best_len s1
      | (Inr segs, s1) \<Rightarrow>
          (let text = concat (map text_of segs)
           in if length (strip text) > best_len
              then detect_loop X sample sample_rate rest lang (length (strip text)) s1
              else detect_loop X sample sample_rate rest best_lang best_len s1))"

definition ASREngine_detect_language ::
  "('w, 'm, 'v, 'f) onnx_asr \<Rightarrow> 'f list \<Rightarrow> int \<Rightarrow> ('w, 'm, 'v, 'f) engine
     \<Rightarrow> string \<times> ('w, 'm, 'v, 'f) engine" where
  "ASREngine_detect_language X audio sample_rate s =
     (let sample_frames = min (int (length audio)) (sample_rate * 5);
          sample = slice_to audio sample_frames
      in detect_loop X sample sample_rate (models s) ''en'' 0 s)"

subsection \<open>\<^verbatim>\<open>ASREngine._model_name_for_language\<close> and \<^verbatim>\<open>ASREngine.recognize\<close>\<close>

definition ASREngine_model_name_for_language ::
  "string \<Rightarrow> ('w, 'm, 'v, 'f) engine \<Rightarrow> error + string" where
  "ASREngine_model_name_for_language lang s =
     (if lang = ''ru'' then Inr (russian_model_name s)
      else if lang = ''en'' then Inr (english_model_name s)
      else Inl (UnknownLanguage lang))"

text \<open>
  Line 97, \<^verbatim>\<open>language or self._language\<close>: the argument \<^verbatim>\<open>None\<close> and the empty
  string are both false.
\<close>

definition requested_language :: "string option \<Rightarrow> ('w, 'm, 'v, 'f) engine \<Rightarrow> string" where
  "requested_language language_arg s =
     (case language_arg of
        None \<Rightarrow> language s
      | Some l \<Rightarrow> if l = [] then language s else l)"

text \<open>Lines 97 to 99: the detection when that language is \<^verbatim>\<open>"auto"\<close>.\<close>

definition resolve_language ::
  "('w, 'm, 'v, 'f) onnx_asr \<Rightarrow> 'f list \<Rightarrow> int \<Rightarrow> string option \<Rightarrow> ('w, 'm, 'v, 'f) engine
     \<Rightarrow> string \<times> ('w, 'm, 'v, 'f) engine" where
  "resolve_language X audio sample_rate language_arg s =
     (let lang = requested_language language_arg s
      in if lang = ''auto'' then ASREngine_detect_language X audio sample_rate s
         else (lang, s))"

text \<open>Lines 101 to 118, for the language that lines 97 to 99 arrived at.\<close>

definition recognize_as ::
  "('w, 'm, 'v, 'f) onnx_asr \<Rightarrow> 'f list \<Rightarrow> int \<Rightarrow> string \<Rightarrow> ('w, 'm, 'v, 'f) engine
     \<Rightarrow> (error + segment list) \<times> ('w, 'm, 'v, 'f) engine" where
  "recognize_as X audio sample_rate lang s =
     (case map_of (models s) lang of
        None \<Rightarrow> (Inl (NoModelLoaded lang), s)
      | Some model \<Rightarrow>
          (case ASREngine_run_recognition X model audio sample_rate lang s of
             (Inr segments, s1) \<Rightarrow> (Inr segments, s1)
           | (Inl error, s1) \<Rightarrow>
               if lang \<in> cpu_only_languages s1 \<or> \<not> is_coreml_runtime_failure error
               then (Inl (Raised error), s1)
               else
                 (case ASREngine_model_name_for_language lang s1 of
                    Inl e \<Rightarrow> (Inl e, s1)
                  | Inr model_name \<Rightarrow>
                      (case ASREngine_load_model X lang model_name True
                              (log_event (Warning (InferenceRetryWarning model_name error)) s1) of
                         (Inl e, s2) \<Rightarrow> (Inl e, s2)
                       | (Inr u, s2) \<Rightarrow>
                           (case map_of (models s2) lang of
                              None \<Rightarrow> (Inl (KeyError lang), s2)
                            | Some reloaded \<Rightarrow>
                                (case ASREngine_run_recognition X reloaded audio sample_rate lang s2 of
                                   (Inl e, s3) \<Rightarrow> (Inl (Raised e), s3)
                                 | (Inr segments, s3) \<Rightarrow> (Inr segments, s3)))))))"

definition ASREngine_recognize ::
  "('w, 'm, 'v, 'f) onnx_asr \<Rightarrow> 'f list \<Rightarrow> int \<Rightarrow> string option \<Rightarrow> ('w, 'm, 'v, 'f) engine
     \<Rightarrow> (error + segment list) \<times> ('w, 'm, 'v, 'f) engine" where
  "ASREngine_recognize X audio sample_rate language_arg s =
     (case resolve_language X audio sample_rate language_arg s of
        (lang, s1) \<Rightarrow> recognize_as X audio sample_rate lang s1)"

subsection \<open>\<^verbatim>\<open>ASREngine.initialize\<close> and \<^verbatim>\<open>ASREngine.set_language\<close>\<close>

definition ASREngine_initialize ::
  "('w, 'm, 'v, 'f) onnx_asr \<Rightarrow> ('w, 'm, 'v, 'f) engine
     \<Rightarrow> (error + string list) \<times> ('w, 'm, 'v, 'f) engine" where
  "ASREngine_initialize X s =
     (case call_load_vad X ''silero'' s of
        (Inl e, s1) \<Rightarrow> (Inl (Raised e), s1)
      | (Inr v, s1) \<Rightarrow>
          (let s2 = s1\<lparr>vad := Some v\<rparr>
           in case (if language s2 = ''ru'' \<or> language s2 = ''auto''
                    then (case ASREngine_load_model X ''ru'' (russian_model_name s2) False s2 of
                            (Inl e, s3) \<Rightarrow> (Inl e, s3)
                          | (Inr u, s3) \<Rightarrow> (Inr [russian_model_name s3], s3))
                    else (Inr [], s2)) of
                (Inl e, s3) \<Rightarrow> (Inl e, s3)
              | (Inr loaded, s3) \<Rightarrow>
                  if language s3 = ''en'' \<or> language s3 = ''auto''
                  then (case ASREngine_load_model X ''en'' (english_model_name s3) False s3 of
                          (Inl e, s4) \<Rightarrow> (Inl e, s4)
                        | (Inr u, s4) \<Rightarrow> (Inr (loaded @ [english_model_name s4]), s4))
                  else (Inr loaded, s3)))"

text \<open>\<^verbatim>\<open>"ru" not in self._models\<close>\<close>

definition not_in_models :: "string \<Rightarrow> ('w, 'm, 'v, 'f) engine \<Rightarrow> bool" where
  "not_in_models lang s = (map_of (models s) lang = None)"

definition ASREngine_set_language ::
  "('w, 'm, 'v, 'f) onnx_asr \<Rightarrow> string \<Rightarrow> ('w, 'm, 'v, 'f) engine
     \<Rightarrow> (error + unit) \<times> ('w, 'm, 'v, 'f) engine" where
  "ASREngine_set_language X lang s0 =
     (let s = s0\<lparr>language := lang\<rparr>
      in if lang = ''ru'' \<and> not_in_models ''ru'' s
         then ASREngine_load_model X ''ru'' (russian_model_name s) False s
         else if lang = ''en'' \<and> not_in_models ''en'' s
         then ASREngine_load_model X ''en'' (english_model_name s) False s
         else if lang = ''auto''
         then (case (if not_in_models ''ru'' s
                     then ASREngine_load_model X ''ru'' (russian_model_name s) False s
                     else (Inr (), s)) of
                 (Inl e, s1) \<Rightarrow> (Inl e, s1)
               | (Inr u, s1) \<Rightarrow>
                   if not_in_models ''en'' s1
                   then ASREngine_load_model X ''en'' (english_model_name s1) False s1
                   else (Inr (), s1))
         else (Inr (), s))"

section \<open>The transcriber\<close>

subsection \<open>Arrays\<close>

text \<open>
  What \<^verbatim>\<open>sf.read\<close> returns: a one-dimensional array of samples, or a two-dimensional
  one of shape (frames, channels), kept as the list of its rows with the second
  dimension beside it (it is there when there is no row). Samples are of a type
  \<open>'f\<close> of floating-point numbers, on which only numpy computes.
\<close>

datatype 'f ndarray = Arr1 "'f list" | Arr2 nat "'f list list"

fun len :: "'f ndarray \<Rightarrow> nat" where
  "len (Arr1 xs) = length xs"
| "len (Arr2 c rows) = length rows"


text \<open>\<^verbatim>\<open>audio[:, i]\<close> on the rows, for \<open>i\<close> below the number of channels.\<close>

definition column :: "nat \<Rightarrow> 'f list list \<Rightarrow> 'f list" where
  "column i rows = map (\<lambda>row. row ! i) rows"

subsection \<open>numpy\<close>

text \<open>
  The floating-point kernels of the numpy functions that \<^verbatim>\<open>_resample_to_16k\<close> calls,
  which the repository does not define: the conversion of an integer, the \<open>i\<close>-th of
  the \<open>num\<close> points of \<^verbatim>\<open>np.linspace(start, stop, num)\<close>, the value of
  \<^verbatim>\<open>np.interp(x, xp, fp)\<close> at one point \<open>x\<close>, and the conversion to single precision.
\<close>

record 'f numpy =
  float_of_int :: "int \<Rightarrow> 'f"
  linspace_at :: "int \<Rightarrow> int \<Rightarrow> int \<Rightarrow> nat \<Rightarrow> 'f"
  interp_at :: "'f \<Rightarrow> 'f list \<Rightarrow> 'f list \<Rightarrow> 'f"
  astype_float32 :: "'f \<Rightarrow> 'f"

text \<open>
  The shapes and the exceptions of these functions, as numpy documents them:
  \<^verbatim>\<open>np.linspace\<close> returns \<open>num\<close> points and rejects a negative \<open>num\<close>;
  \<^verbatim>\<open>np.arange(n)\<close> is \<open>0, \<dots>, n - 1\<close>; \<^verbatim>\<open>np.interp\<close> returns one value for each
  point of \<open>x\<close> and rejects an empty \<open>xp\<close> and an \<open>fp\<close> of another length;
  \<^verbatim>\<open>np.stack(arrays, axis=1)\<close> makes the arrays the columns of the result and
  rejects an empty list. The messages of the exceptions are shortened.
\<close>

definition np_linspace :: "'f numpy \<Rightarrow> int \<Rightarrow> int \<Rightarrow> int \<Rightarrow> exn + 'f list" where
  "np_linspace np start stop num =
     (if num < 0 then Inl (Exn ''ValueError'' ''Number of samples must be non-negative.'')
      else Inr (map (linspace_at np start stop num) [0..<nat num]))"

definition np_arange :: "'f numpy \<Rightarrow> nat \<Rightarrow> 'f list" where
  "np_arange np n = map (\<lambda>i. float_of_int np (int i)) [0..<n]"

definition np_interp :: "'f numpy \<Rightarrow> 'f list \<Rightarrow> 'f list \<Rightarrow> 'f list \<Rightarrow> exn + 'f list" where
  "np_interp np x xp fp =
     (if xp = [] then Inl (Exn ''ValueError'' ''array of sample points is empty'')
      else if length fp \<noteq> length xp
      then Inl (Exn ''ValueError'' ''fp and xp are not of the same length.'')
      else Inr (map (\<lambda>q. interp_at np q xp fp) x))"

definition np_stack_axis1 :: "'f list list \<Rightarrow> exn + 'f ndarray" where
  "np_stack_axis1 arrays =
     (case arrays of
        [] \<Rightarrow> Inl (Exn ''ValueError'' ''need at least one array to stack'')
      | a # as \<Rightarrow>
          if list_all (\<lambda>b. length b = length a) as
          then Inr (Arr2 (length arrays) (map (\<lambda>i. map (\<lambda>b. b ! i) arrays) [0..<length a]))
          else Inl (Exn ''ValueError'' ''all input arrays must have the same shape''))"

fun astype :: "'f numpy \<Rightarrow> 'f ndarray \<Rightarrow> 'f ndarray" where
  "astype np (Arr1 xs) = Arr1 (map (astype_float32 np) xs)"
| "astype np (Arr2 c rows) = Arr2 c (map (map (astype_float32 np)) rows)"

subsection \<open>Python floats\<close>

text \<open>
  \<^verbatim>\<open>int(len(audio) * (16000 / sample_rate))\<close> is computed in binary64. A finite
  binary64 number is kept as a pair \<open>(m, e)\<close> that denotes \<open>m * 2 ^ e\<close>.
  \<open>round_float64 n d s\<close> is the binary64 number nearest to \<open>n / d * 2 ^ s\<close> (for
  \<open>d > 0\<close>), ties to even, with 53 bits above the exponent \<open>-1074\<close> of the smallest
  subnormal. No number that occurs here reaches the overflow threshold: a quotient
  \<open>16000 / sample_rate\<close> is at most 16000 in absolute value.
\<close>

type_synonym float64 = "int \<times> int"

definition round_half_even :: "int \<Rightarrow> int \<Rightarrow> int" where
  "round_half_even n d =
     (let q = n div d; r = n mod d
      in if 2 * r < d then q else if d < 2 * r then q + 1 else if even q then q else q + 1)"

text \<open>\<open>\<lfloor>log\<^sub>2 (n / d)\<rfloor>\<close> for positive \<open>n\<close> and \<open>d\<close>, from the bit lengths.\<close>

definition floor_log2 :: "int \<Rightarrow> int \<Rightarrow> int" where
  "floor_log2 n d =
     (let t = bitlen n - bitlen d
      in if (if 0 \<le> t then d * 2 ^ nat t \<le> n else d \<le> n * 2 ^ nat (- t)) then t else t - 1)"

definition round_float64 :: "int \<Rightarrow> int \<Rightarrow> int \<Rightarrow> float64" where
  "round_float64 n d s =
     (if n = 0 then (0, 0)
      else
        (let a = \<bar>n\<bar>;
             e = max (floor_log2 a d + s - 52) (- 1074);
             k = s - e;
             m = (if 0 \<le> k then round_half_even (a * 2 ^ nat k) d
                  else round_half_even a (d * 2 ^ nat (- k)))
         in (sgn n * m, e)))"

text \<open>\<^verbatim>\<open>a / b\<close> on integers: the correctly rounded quotient, or \<^verbatim>\<open>ZeroDivisionError\<close>.\<close>

definition true_div :: "int \<Rightarrow> int \<Rightarrow> exn + float64" where
  "true_div a b =
     (if b = 0 then Inl (Exn ''ZeroDivisionError'' ''division by zero'')
      else Inr (round_float64 (a * sgn b) \<bar>b\<bar> 0))"

text \<open>\<^verbatim>\<open>n * x\<close> for an integer \<open>n\<close> and a float \<open>x\<close>: \<open>n\<close> is converted, then multiplied.\<close>

definition float_of :: "int \<Rightarrow> float64" where
  "float_of n = round_float64 n 1 0"

definition float_mul :: "float64 \<Rightarrow> float64 \<Rightarrow> float64" where
  "float_mul x y =
     (case x of (m1, e1) \<Rightarrow> case y of (m2, e2) \<Rightarrow> round_float64 (m1 * m2) 1 (e1 + e2))"

text \<open>\<^verbatim>\<open>int(x)\<close>: the integer part, towards zero.\<close>

definition int_of_float :: "float64 \<Rightarrow> int" where
  "int_of_float x =
     (case x of (m, e) \<Rightarrow>
        if 0 \<le> e then m * 2 ^ nat e else sgn m * (\<bar>m\<bar> div 2 ^ nat (- e)))"

subsection \<open>\<^verbatim>\<open>_resample_to_16k\<close>\<close>

text \<open>Line 80: \<^verbatim>\<open>new_length = int(len(audio) * ratio)\<close>\<close>

definition new_length :: "nat \<Rightarrow> float64 \<Rightarrow> int" where
  "new_length n ratio = int_of_float (float_mul (float_of (int n)) ratio)"

text \<open>
  The list comprehension over \<^verbatim>\<open>range(audio.shape[1])\<close>: the channels one after the
  other, up to the first that raises.
\<close>

fun interp_channels ::
  "'f numpy \<Rightarrow> 'f list \<Rightarrow> 'f list \<Rightarrow> 'f list list \<Rightarrow> nat list \<Rightarrow> exn + 'f list list" where
  "interp_channels np indices old_indices rows [] = Inr []"
| "interp_channels np indices old_indices rows (channel_index # rest) =
     (case np_interp np indices old_indices (column channel_index rows) of
        Inl e \<Rightarrow> Inl e
      | Inr channel \<Rightarrow>
          (case interp_channels np indices old_indices rows rest of
             Inl e \<Rightarrow> Inl e
           | Inr channels \<Rightarrow> Inr (channel # channels)))"

definition resample_to_16k :: "'f numpy \<Rightarrow> 'f ndarray \<Rightarrow> int \<Rightarrow> error + 'f ndarray \<times> int" where
  "resample_to_16k np audio sample_rate =
     (if sample_rate = 16000 then Inr (audio, sample_rate)
      else
        (case true_div 16000 sample_rate of
           Inl e \<Rightarrow> Inl (Raised e)
         | Inr ratio \<Rightarrow>
             (let n = new_length (len audio) ratio
              in case np_linspace np 0 (int (len audio) - 1) n of
                   Inl e \<Rightarrow> Inl (Raised e)
                 | Inr indices \<Rightarrow>
                     (let old_indices = np_arange np (len audio)
                      in case audio of
                           Arr1 xs \<Rightarrow>
                             (case np_interp np indices old_indices xs of
                                Inl e \<Rightarrow> Inl (Raised e)
                              | Inr resampled \<Rightarrow> Inr (astype np (Arr1 resampled), 16000))
                         | Arr2 c rows \<Rightarrow>
                             (case interp_channels np indices old_indices rows [0..<c] of
                                Inl e \<Rightarrow> Inl (Raised e)
                              | Inr channels \<Rightarrow>
                                  (case np_stack_axis1 channels of
                                     Inl e \<Rightarrow> Inl (Raised e)
                                   | Inr stacked \<Rightarrow> Inr (astype np stacked, 16000)))))))"

subsection \<open>\<^verbatim>\<open>_with_source\<close> and \<^verbatim>\<open>transcribe\<close>\<close>

definition MIC_SOURCE :: string where
  "MIC_SOURCE = ''mic/speak''"

definition SPEAKER_SOURCE :: string where
  "SPEAKER_SOURCE = ''speaker/speak''"

definition with_source :: "segment list \<Rightarrow> string \<Rightarrow> segment list" where
  "with_source segments source = map (\<lambda>segment. segment\<lparr>seg_source := Some source\<rparr>) segments"

text \<open>
  The key of \<^verbatim>\<open>sorted\<close>:
  \<^verbatim>\<open>(seg.get("start", 0.0), seg.get("end", 0.0), seg.get("source", ""))\<close>. Tuples
  compare lexicographically and strings by code point, which is the order of their
  UTF-8 bytes; \<^verbatim>\<open>sorted\<close> is stable, as \<open>sort_key\<close> is.
\<close>

definition segment_key :: "segment \<Rightarrow> rat \<times> rat \<times> string" where
  "segment_key seg =
     (seg_start seg, seg_end seg, (case seg_source seg of Some src \<Rightarrow> src | None \<Rightarrow> []))"

text \<open>
  Lines 51 to 66 of \<^verbatim>\<open>transcribe\<close>: the calls of \<^verbatim>\<open>engine.recognize\<close> on the buffer
  that \<^verbatim>\<open>_resample_to_16k\<close> returned. \<^verbatim>\<open>audio[:, 0]\<close> raises \<^verbatim>\<open>IndexError\<close> on an
  array without channels.
\<close>

definition recognize_channels ::
  "('w, 'm, 'v, 'f) onnx_asr \<Rightarrow> 'f ndarray \<Rightarrow> int \<Rightarrow> ('w, 'm, 'v, 'f) engine
     \<Rightarrow> (error + segment list) \<times> ('w, 'm, 'v, 'f) engine" where
  "recognize_channels X audio sample_rate s =
     (case audio of
        Arr1 xs \<Rightarrow> ASREngine_recognize X xs sample_rate None s
      | Arr2 c rows \<Rightarrow>
          if c = 1 then ASREngine_recognize X (column 0 rows) sample_rate None s
          else
            (let s1 = (if c > 2 then log_event (Warning (ChannelsWarning c)) s else s)
             in if c = 0
                then (Inl (Raised (Exn ''IndexError''
                        ''index 0 is out of bounds for axis 1 with size 0'')), s1)
                else
                  (let mic_audio = column 0 rows;
                       speaker_audio = column 1 rows
                   in case ASREngine_recognize X mic_audio sample_rate None s1 of
                        (Inl e, s2) \<Rightarrow> (Inl e, s2)
                      | (Inr mic_segments, s2) \<Rightarrow>
                          (case ASREngine_recognize X speaker_audio sample_rate None s2 of
                             (Inl e, s3) \<Rightarrow> (Inl e, s3)
                           | (Inr speaker_segments, s3) \<Rightarrow>
                               (Inr (sort_key segment_key
                                       (with_source mic_segments MIC_SOURCE @
                                        with_source speaker_segments SPEAKER_SOURCE)), s3)))))"

text \<open>
  \<^verbatim>\<open>transcribe\<close> from line 42 on, for the array and the rate that \<^verbatim>\<open>sf.read\<close>
  returned. The result comes with what the call left outside: the state of the
  library and the log. Lines 33 to 40 before it only log; the quotient
  \<^verbatim>\<open>len(audio) / sample_rate\<close> that they log raises at the rate 0 the
  \<^verbatim>\<open>ZeroDivisionError\<close> that line 79 raises here.
\<close>

definition transcribe_audio ::
  "('w, 'm, 'v, 'f) onnx_asr \<Rightarrow> 'f numpy \<Rightarrow> 'f ndarray \<Rightarrow> int \<Rightarrow> string \<Rightarrow> string \<Rightarrow> string \<Rightarrow> 'w
     \<Rightarrow> (error + segment list \<times> unicode) \<times> 'w \<times> ('m, 'v, 'f) event list" where
  "transcribe_audio X np audio0 sample_rate0 lang russian_model english_model w =
     (case resample_to_16k np audio0 sample_rate0 of
        Inl e \<Rightarrow> (Inl e, w, [])
      | Inr (audio, sample_rate) \<Rightarrow>
          (case ASREngine_initialize X (ASREngine russian_model english_model lang w) of
             (Inl e, s1) \<Rightarrow> (Inl e, world s1, trace s1)
           | (Inr loaded, s1) \<Rightarrow>
               (case recognize_channels X audio sample_rate s1 of
                  (Inl e, s2) \<Rightarrow> (Inl e, world s2, trace s2)
                | (Inr segments, s2) \<Rightarrow>
                    (Inr (segments, join [32] (map seg_text segments)), world s2, trace s2))))"

definition transcribe ::
  "('w, 'm, 'v, 'f) onnx_asr \<Rightarrow> 'f numpy \<Rightarrow> (string \<Rightarrow> exn + 'f ndarray \<times> int)
     \<Rightarrow> string \<Rightarrow> string \<Rightarrow> string \<Rightarrow> string \<Rightarrow> 'w
     \<Rightarrow> (error + segment list \<times> unicode) \<times> 'w \<times> ('m, 'v, 'f) event list" where
  "transcribe X np sf_read audio_path lang russian_model english_model w =
     (case sf_read audio_path of
        Inl e \<Rightarrow> (Inl (Raised e), w, [])
      | Inr (audio, sample_rate) \<Rightarrow>
          transcribe_audio X np audio sample_rate lang russian_model english_model w)"

section \<open>Notions used to state the properties\<close>

text \<open>
  The engine only ever stores a model under \<^verbatim>\<open>"ru"\<close> or \<^verbatim>\<open>"en"\<close>: the keys of
  \<^verbatim>\<open>self._models\<close> are among the two supported codes.
\<close>

definition models_supported :: "('w, 'm, 'v, 'f) engine \<Rightarrow> bool" where
  "models_supported s = list_all (\<lambda>p. fst p = ''ru'' \<or> fst p = ''en'') (models s)"

text \<open>
  What one recognizer contributes to the detection: the length of its trimmed text,
  nothing when it raised.
\<close>

definition detection_score :: "exn + raw_segment list \<Rightarrow> nat" where
  "detection_score r =
     (case r of Inl e \<Rightarrow> 0 | Inr segs \<Rightarrow> length (strip (concat (map text_of segs))))"

text \<open>
  The choice as the specification words it: the language with the longest trimmed
  text, the first of them in iteration order when several are longest, and the
  fallback language when no text is longer than nothing.
\<close>

definition longest_text_language :: "string \<Rightarrow> (string \<times> nat) list \<Rightarrow> string" where
  "longest_text_language fallback scored =
     (let best = fold max (map snd scored) 0
      in if best = 0 then fallback
         else (case find (\<lambda>p. snd p = best) scored of
                 Some p \<Rightarrow> fst p
               | None \<Rightarrow> fallback))"

text \<open>The calls of recognizers that a detection logs, one for each stored model.\<close>

definition detection_events ::
  "'f list \<Rightarrow> int \<Rightarrow> (string \<times> 'm) list \<Rightarrow> (exn + raw_segment list) list
     \<Rightarrow> ('m, 'v, 'f) event list" where
  "detection_events sample sample_rate ms outcomes =
     map (\<lambda>(p, r). Recognize (snd p) sample sample_rate r) (zip ms outcomes)"

text \<open>The events that a run added to the log.\<close>

definition new_events ::
  "('w, 'm, 'v, 'f) engine \<Rightarrow> ('w, 'm, 'v, 'f) engine \<Rightarrow> ('m, 'v, 'f) event list" where
  "new_events s s' = drop (length (trace s)) (trace s')"

text \<open>A logged call of a recognizer that raised or returned no text but blanks.\<close>

fun silent :: "('m, 'v, 'f) event \<Rightarrow> bool" where
  "silent (Recognize m audio sample_rate r) = (detection_score r = 0)"
| "silent ev = True"

text \<open>A logged load of the model \<open>name\<close> that succeeded with the default providers.\<close>

fun accelerated_load :: "string \<Rightarrow> ('m, 'v, 'f) event \<Rightarrow> bool" where
  "accelerated_load name (LoadModel n DefaultProviders (Inr m)) = (n = name)"
| "accelerated_load name ev = False"

definition accelerated_load_of ::
  "string \<Rightarrow> ('w, 'm, 'v, 'f) engine \<Rightarrow> ('m, 'v, 'f) event \<Rightarrow> bool" where
  "accelerated_load_of lang s ev =
     ((lang = ''ru'' \<and> accelerated_load (russian_model_name s) ev) \<or>
      (lang = ''en'' \<and> accelerated_load (english_model_name s) ev))"

text \<open>
  The operations that a holder of the engine can call, and the engine after a
  sequence of them (an operation that raised leaves the engine as it was when the
  exception left it).
\<close>

datatype 'f operation =
    Initialize
  | RecognizeAudio "'f list" int "string option"
  | SetLanguage string

fun perform ::
  "('w, 'm, 'v, 'f) onnx_asr \<Rightarrow> 'f operation \<Rightarrow> ('w, 'm, 'v, 'f) engine
     \<Rightarrow> ('w, 'm, 'v, 'f) engine" where
  "perform X Initialize s = snd (ASREngine_initialize X s)"
| "perform X (RecognizeAudio audio sample_rate language_arg) s =
     snd (ASREngine_recognize X audio sample_rate language_arg s)"
| "perform X (SetLanguage lang) s = snd (ASREngine_set_language X lang s)"


definition perform_all ::
  "('w, 'm, 'v, 'f) onnx_asr \<Rightarrow> 'f operation list \<Rightarrow> ('w, 'm, 'v, 'f) engine
     \<Rightarrow> ('w, 'm, 'v, 'f) engine" where
  "perform_all X ops s = fold (perform X) ops s"

text \<open>A segment as the specification wants it: its text is trimmed and not empty.\<close>

definition trimmed_nonempty :: "segment \<Rightarrow> bool" where
  "trimmed_nonempty seg = (seg_text seg \<noteq> [] \<and> strip (seg_text seg) = seg_text seg)"


text \<open>The first two channels of an array of more than two.\<close>

fun first_two_channels :: "'f ndarray \<Rightarrow> 'f ndarray" where
  "first_two_channels (Arr1 xs) = Arr1 xs"
| "first_two_channels (Arr2 c rows) = Arr2 (min c 2) (map (take 2) rows)"

text \<open>
  How an engine \<open>s'\<close> can differ from an earlier engine \<open>s\<close>, as far as the mark of
  the language \<open>lang\<close> goes: the model names are the same, the log has grown, a
  mark on \<open>lang\<close> is still there unless the log shows a load of the model of \<open>lang\<close>
  that succeeded with the default providers, and the stored models are still those
  of supported languages.
\<close>

definition evolves ::
  "string \<Rightarrow> ('w, 'm, 'v, 'f) engine \<Rightarrow> ('w, 'm, 'v, 'f) engine \<Rightarrow> bool" where
  "evolves lang s s' =
     (russian_model_name s' = russian_model_name s \<and>
      english_model_name s' = english_model_name s \<and>
      length (trace s) \<le> length (trace s') \<and>
      take (length (trace s)) (trace s') = trace s \<and>
      (lang \<in> cpu_only_languages s \<longrightarrow>
         lang \<in> cpu_only_languages s' \<or>
         list_ex (accelerated_load_of lang s) (new_events s s')) \<and>
      (models_supported s \<longrightarrow> models_supported s'))"

text \<open>
  An engine without its log, and an engine with more at the beginning of its log: no
  operation reads the log.
\<close>

definition untraced :: "('w, 'm, 'v, 'f) engine \<Rightarrow> ('w, 'm, 'v, 'f) engine" where
  "untraced s = s\<lparr>trace := []\<rparr>"

definition with_prefix ::
  "('m, 'v, 'f) event list \<Rightarrow> ('w, 'm, 'v, 'f) engine \<Rightarrow> ('w, 'm, 'v, 'f) engine" where
  "with_prefix pre s = s\<lparr>trace := pre @ trace s\<rparr>"

section \<open>A library to run the engine on\<close>

text \<open>
  A stand-in for onnx_asr with the failures of \<^verbatim>\<open>tests/test_asr_engine.py\<close>: the
  model \<^verbatim>\<open>nemo-parakeet-tdt-0.6b-v3\<close> loads on the CPU only, a recognizer of
  \<^verbatim>\<open>gigaam-v3-rnnt\<close> loaded with the default providers fails at inference, and the
  model \<^verbatim>\<open>broken\<close> never loads. A recognizer that works hears, from the first
  sample on, its own name between blanks, and then only blanks. The state of the
  library counts the calls.
\<close>

datatype demo_model = Loaded string providers | Wrapped demo_model

definition demo_path_error :: exn where
  "demo_path_error = Exn ''RuntimeError''
     ''Initializer::Initializer ... model_path must not be empty. Ensure that a path is provided when the model is created or loaded.''"

definition demo_coreml_error :: exn where
  "demo_coreml_error = Exn ''RuntimeError''
     ''CoreMLExecutionProvider ... Unable to compute the prediction using a neural network model (error code: -1).''"

definition demo_load_model :: "string \<Rightarrow> providers \<Rightarrow> exn + demo_model" where
  "demo_load_model name p =
     (if name = ''nemo-parakeet-tdt-0.6b-v3'' \<and> p = DefaultProviders then Inl demo_path_error
      else if name = ''broken'' then Inl (Exn ''RuntimeError'' ''unexpected failure'')
      else Inr (Loaded name p))"

fun demo_transcript :: "string \<Rightarrow> rat list \<Rightarrow> raw_segment list" where
  "demo_transcript name [] = []"
| "demo_transcript name (x # xs) =
     [\<lparr> raw_text = Some (ascii ('' '' @ name @ '' '')), raw_str = [],
         raw_start = Some x, raw_end = Some (x + 1) \<rparr>,
      \<lparr> raw_text = Some (ascii ''  ''), raw_str = [],
         raw_start = Some (x + 1), raw_end = Some (x + 2) \<rparr>]"

fun demo_recognize :: "demo_model \<Rightarrow> rat list \<Rightarrow> exn + raw_segment list" where
  "demo_recognize (Wrapped (Loaded name p)) audio =
     (if name = ''gigaam-v3-rnnt'' \<and> p = DefaultProviders then Inl demo_coreml_error
      else Inr (demo_transcript name audio))"
| "demo_recognize m audio = Inr []"

definition demo_onnx :: "(nat, demo_model, string, rat) onnx_asr" where
  "demo_onnx =
     \<lparr> load_vad = (\<lambda>name w. (Inr name, w + 1)),
       load_model = (\<lambda>name p w. (demo_load_model name p, w + 1)),
       with_vad = (\<lambda>m v w. (Inr (Wrapped m), w + 1)),
       model_recognize = (\<lambda>m audio sample_rate w. (demo_recognize m audio, w + 1)) \<rparr>"

text \<open>An engine as the tests set it up: constructed, with a voice-activity detector.\<close>

definition demo_engine :: "string \<Rightarrow> string \<Rightarrow> string \<Rightarrow> (nat, demo_model, string, rat) engine" where
  "demo_engine russian_model english_model lang =
     (ASREngine russian_model english_model lang 0)\<lparr>vad := Some ''silero''\<rparr>"

text \<open>
  A stand-in for the kernels of numpy in exact arithmetic: evenly spaced points,
  linear interpolation between the neighbours, and a conversion that changes nothing.
\<close>

fun demo_interp_at :: "rat \<Rightarrow> rat list \<Rightarrow> rat list \<Rightarrow> rat" where
  "demo_interp_at q (x0 # x1 # xs) (y0 # y1 # ys) =
     (if q \<le> x0 then y0
      else if q \<le> x1 then y0 + (q - x0) * (y1 - y0) / (x1 - x0)
      else demo_interp_at q (x1 # xs) (y1 # ys))"
| "demo_interp_at q xs (y0 # ys) = y0"
| "demo_interp_at q xs [] = 0"

definition demo_numpy :: "rat numpy" where
  "demo_numpy =
     \<lparr> float_of_int = rat_of_int,
       linspace_at = (\<lambda>start stop num i.
          if num = 1 then rat_of_int start
          else rat_of_int start + rat_of_nat i * rat_of_int (stop - start) / rat_of_int (num - 1)),
       interp_at = demo_interp_at,
       astype_float32 = (\<lambda>x. x) \<rparr>"

text \<open>
  The engine after the recognizer for Russian has fallen back to the CPU: the model
  loaded for the CPU is stored and the language is marked.
\<close>

definition demo_fallen_back :: "(nat, demo_model, string, rat) engine" where
  "demo_fallen_back =
     (demo_engine ''gigaam-v3-rnnt'' ''whisper-base'' ''ru'')
       \<lparr> models := [(''ru'', Wrapped (Loaded ''gigaam-v3-rnnt'' CPUExecutionProviderOnly))],
         cpu_only_languages := {''ru''} \<rparr>"


text \<open>
  A stand-in for \<^verbatim>\<open>sf.read\<close>: a mono file, a stereo file whose second channel
  starts earlier than its first (the first sample of a channel is where its recognizer
  puts the segment), the same with a third channel, a mono file of seven samples at
  64 kHz, and no other file.
\<close>

definition demo_sf_read :: "string \<Rightarrow> exn + rat ndarray \<times> int" where
  "demo_sf_read audio_path =
     (if audio_path = ''test.wav'' then Inr (Arr1 [0, 1 / 2, 1 / 4], 16000)
      else if audio_path = ''stereo.wav'' then Inr (Arr2 2 [[1 / 5, 0], [1 / 2, 1 / 4]], 16000)
      else if audio_path = ''surround.wav''
      then Inr (Arr2 3 [[1 / 5, 0, 9], [1 / 2, 1 / 4, 8]], 16000)
      else if audio_path = ''fast.wav'' then Inr (Arr1 [0, 1, 2, 3, 4, 5, 6], 64000)
      else Inl (Exn ''LibsndfileError'' ''Error opening file: System error.''))"

section \<open>Properties\<close>

subsection \<open>Tools\<close>

lemma log_event_simps [simp]:
  "trace (log_event ev s) = trace s @ [ev]"
  "world (log_event ev s) = world s"
  "models (log_event ev s) = models s"
  "cpu_only_languages (log_event ev s) = cpu_only_languages s"
  "vad (log_event ev s) = vad s"
  "language (log_event ev s) = language s"
  "russian_model_name (log_event ev s) = russian_model_name s"
  "english_model_name (log_event ev s) = english_model_name s"
  by (simp_all add: log_event_def)

lemmas call_defs = call_load_vad_def call_load_model_def call_with_vad_def call_recognize_def

lemmas demo_defs =
  demo_onnx_def demo_engine_def ASREngine_def demo_load_model_def log_event_def

lemma demo_path_error_retry [simp]: "should_retry_with_cpu demo_path_error"
  by (simp add: should_retry_with_cpu_def demo_path_error_def MODEL_PATH_EMPTY_def
        INITIALIZER_SIGNATURE_def)

lemma demo_unexpected_no_retry [simp]:
  "\<not> should_retry_with_cpu (Exn ''RuntimeError'' ''unexpected failure'')"
  by (simp add: should_retry_with_cpu_def MODEL_PATH_EMPTY_def)

lemma demo_coreml_error_fallback [simp]: "is_coreml_runtime_failure demo_coreml_error"
  by (simp add: is_coreml_runtime_failure_def demo_coreml_error_def COREML_PROVIDER_def
        COREML_RUNTIME_ERROR_def)


lemma map_of_update_same: "map_of (AList.update k v al) k = Some v"
  by (simp add: update_conv')

subsection \<open>Loading with the fallback to the CPU\<close>

text \<open>
  Claim C1. A run of \<^verbatim>\<open>_load_model\<close> logs one load with the providers asked for. If
  that load raised and \<^verbatim>\<open>force_cpu\<close> is set or the message lacks the signature of the
  external-data path, the run raises that very exception and nothing else happens: no
  second load, no change of the CPU-only marks or of the stored models. Otherwise the
  run warns and loads once more, with the CPU provider only, and that is the last load:
  if it raised, the run raises its exception and marks and models are as before; if it
  succeeded, the language is marked CPU-only and the model goes through
  \<^verbatim>\<open>with_vad\<close> into the store.
\<close>

theorem load_model_cpu_fallback:
  assumes run: "ASREngine_load_model X lang name force_cpu s = (res, s')"
  shows "\<exists>r1 rest.
           trace s' = trace s @
             LoadModel name (if force_cpu then CPUExecutionProviderOnly else DefaultProviders) r1 # rest \<and>
           (case r1 of
              Inl e \<Rightarrow>
                if force_cpu \<or> \<not> should_retry_with_cpu e
                then rest = [] \<and> res = Inl (Raised e) \<and>
                     cpu_only_languages s' = cpu_only_languages s \<and> models s' = models s
                else (\<exists>r2 rest2.
                        rest = Warning (LoadRetryWarning name e) #
                               LoadModel name CPUExecutionProviderOnly r2 # rest2 \<and>
                        (case r2 of
                           Inl e2 \<Rightarrow>
                             rest2 = [] \<and> res = Inl (Raised e2) \<and>
                             cpu_only_languages s' = cpu_only_languages s \<and> models s' = models s
                         | Inr m \<Rightarrow>
                             cpu_only_languages s' = insert lang (cpu_only_languages s) \<and>
                             (\<exists>r3. rest2 = [WithVad m (vad s) r3] \<and>
                                (case r3 of
                                   Inl e3 \<Rightarrow> res = Inl (Raised e3) \<and> models s' = models s
                                 | Inr wrapped \<Rightarrow>
                                     res = Inr () \<and>
                                     models s' = AList.update lang wrapped (models s)))))
            | Inr m \<Rightarrow>
                cpu_only_languages s' =
                  (if force_cpu then insert lang (cpu_only_languages s)
                   else cpu_only_languages s - {lang}) \<and>
                (\<exists>r3. rest = [WithVad m (vad s) r3] \<and>
                   (case r3 of
                      Inl e3 \<Rightarrow> res = Inl (Raised e3) \<and> models s' = models s
                    | Inr wrapped \<Rightarrow>
                        res = Inr () \<and> models s' = AList.update lang wrapped (models s))))"
  using run
  by (auto simp: ASREngine_load_model_def store_with_vad_def call_defs
        split: sum.split_asm prod.split_asm if_split_asm)

text \<open>
  The two runs of the tests: the model that needs the CPU is loaded twice and marked,
  the model that fails otherwise is loaded once and its exception comes out.
\<close>

theorem load_model_cpu_fallback_witness:
  "ASREngine_load_model demo_onnx ''en'' ''nemo-parakeet-tdt-0.6b-v3'' False
       (demo_engine ''gigaam-v3-rnnt'' ''nemo-parakeet-tdt-0.6b-v3'' ''en'')
     = (Inr (),
        (demo_engine ''gigaam-v3-rnnt'' ''nemo-parakeet-tdt-0.6b-v3'' ''en'')
          \<lparr> models := [(''en'', Wrapped (Loaded ''nemo-parakeet-tdt-0.6b-v3'' CPUExecutionProviderOnly))],
            cpu_only_languages := {''en''},
            world := 3,
            trace :=
              [LoadModel ''nemo-parakeet-tdt-0.6b-v3'' DefaultProviders (Inl demo_path_error),
               Warning (LoadRetryWarning ''nemo-parakeet-tdt-0.6b-v3'' demo_path_error),
               LoadModel ''nemo-parakeet-tdt-0.6b-v3'' CPUExecutionProviderOnly
                 (Inr (Loaded ''nemo-parakeet-tdt-0.6b-v3'' CPUExecutionProviderOnly)),
               WithVad (Loaded ''nemo-parakeet-tdt-0.6b-v3'' CPUExecutionProviderOnly) (Some ''silero'')
                 (Inr (Wrapped (Loaded ''nemo-parakeet-tdt-0.6b-v3'' CPUExecutionProviderOnly)))] \<rparr>)
   \<and> ASREngine_load_model demo_onnx ''en'' ''broken'' False
       (demo_engine ''gigaam-v3-rnnt'' ''broken'' ''en'')
     = (Inl (Raised (Exn ''RuntimeError'' ''unexpected failure'')),
        (demo_engine ''gigaam-v3-rnnt'' ''broken'' ''en'')
          \<lparr> world := 1,
            trace := [LoadModel ''broken'' DefaultProviders
                        (Inl (Exn ''RuntimeError'' ''unexpected failure''))] \<rparr>)"
proof -
  let ?s1 = "demo_engine ''gigaam-v3-rnnt'' ''nemo-parakeet-tdt-0.6b-v3'' ''en''"
  let ?s2 = "demo_engine ''gigaam-v3-rnnt'' ''broken'' ''en''"
  let ?r1 = "ASREngine_load_model demo_onnx ''en'' ''nemo-parakeet-tdt-0.6b-v3'' False ?s1"
  let ?r2 = "ASREngine_load_model demo_onnx ''en'' ''broken'' False ?s2"
  have h1: "?r1 = (fst ?r1, snd ?r1)" and h2: "?r2 = (fst ?r2, snd ?r2)"
    by simp_all
  show ?thesis
    using load_model_cpu_fallback [OF h1] load_model_cpu_fallback [OF h2]
    by (simp add: ASREngine_load_model_def store_with_vad_def call_defs demo_defs)
qed

subsection \<open>Inference with the fallback to the CPU\<close>


lemma ascii_eq_Nil [simp]: "ascii s = [] \<longleftrightarrow> s = []"
  by (simp add: ascii_def)

lemma strip_demo_gigaam [simp]:
  "strip (ascii '' gigaam-v3-rnnt '') = ascii ''gigaam-v3-rnnt''"
  by (simp add: strip_def ascii_def is_space_def)

lemma strip_blanks [simp]: "strip (ascii ''  '') = []"
  by (simp add: strip_def ascii_def is_space_def)



subsection \<open>How the operations change the engine\<close>

lemma models_supported_ASREngine: "models_supported (ASREngine russian_model english_model lang w)"
  by (simp add: models_supported_def ASREngine_def)

lemma list_all_update:
  "list_all P al \<Longrightarrow> P (k, v) \<Longrightarrow> list_all P (AList.update k v al)"
  by (induction al) auto

lemma evolves_refl: "evolves l s s"
  by (simp add: evolves_def)

lemma evolves_trans:
  assumes "evolves l s t" and "evolves l t u"
  shows "evolves l s u"
proof -
  obtain n1 where n1: "trace t = trace s @ n1"
    using assms(1) by (metis append_take_drop_id evolves_def)
  obtain n2 where n2: "trace u = trace t @ n2"
    using assms(2) by (metis append_take_drop_id evolves_def)
  have names: "accelerated_load_of l t = accelerated_load_of l s"
    using assms(1) by (auto simp: evolves_def accelerated_load_of_def fun_eq_iff)
  show ?thesis
    using assms names unfolding evolves_def new_events_def n1 n2
    by auto
qed

lemma evolves_frame:
  assumes "russian_model_name t = russian_model_name s"
    and "english_model_name t = english_model_name s"
    and "trace t = trace s @ new"
    and "models t = models s"
    and "cpu_only_languages s \<subseteq> cpu_only_languages t"
  shows "evolves l s t"
  using assms by (auto simp: evolves_def models_supported_def)

lemma evolves_load_model:
  assumes run: "ASREngine_load_model X lang name force_cpu s = (res, s')"
    and lang: "lang = ''ru'' \<or> lang = ''en''"
    and name: "force_cpu \<or> ASREngine_model_name_for_language lang s = Inr name"
  shows "evolves l s s'"
proof -
  have m: "models_supported s \<longrightarrow> models_supported s'"
    using run lang
    by (auto simp: ASREngine_load_model_def store_with_vad_def call_defs models_supported_def
          intro!: list_all_update split: sum.split_asm prod.split_asm if_split_asm)
  have rest: "russian_model_name s' = russian_model_name s \<and>
      english_model_name s' = english_model_name s \<and>
      length (trace s) \<le> length (trace s') \<and>
      take (length (trace s)) (trace s') = trace s \<and>
      (l \<in> cpu_only_languages s \<longrightarrow>
         l \<in> cpu_only_languages s' \<or>
         list_ex (accelerated_load_of l s) (new_events s s'))"
    using run name
    by (auto simp: ASREngine_load_model_def store_with_vad_def call_defs new_events_def
          accelerated_load_of_def ASREngine_model_name_for_language_def
          split: sum.split_asm prod.split_asm if_split_asm)
  show ?thesis
    using m rest by (simp add: evolves_def)
qed


lemma detect_loop_frame:
  assumes "detect_loop X sample sample_rate ms best_lang best_len s = (lang, s')"
  shows "russian_model_name s' = russian_model_name s \<and>
         english_model_name s' = english_model_name s \<and>
         language s' = language s \<and> vad s' = vad s \<and> models s' = models s \<and>
         cpu_only_languages s' = cpu_only_languages s \<and>
         (\<exists>new. trace s' = trace s @ new)"
  using assms
proof (induction ms arbitrary: best_lang best_len s)
  case Nil
  then show ?case by simp
next
  case (Cons p ms)
  obtain l m where p: "p = (l, m)" by (cases p)
  obtain r s1 where call: "call_recognize X m sample sample_rate s = (r, s1)"
    by fastforce
  have s1: "russian_model_name s1 = russian_model_name s \<and>
         english_model_name s1 = english_model_name s \<and>
         language s1 = language s \<and> vad s1 = vad s \<and> models s1 = models s \<and>
         cpu_only_languages s1 = cpu_only_languages s \<and>
         trace s1 = trace s @ [Recognize m sample sample_rate r]"
    using call by (auto simp: call_defs split: prod.split_asm)
  obtain bl bn where rec: "detect_loop X sample sample_rate ms bl bn s1 = (lang, s')"
    using Cons.prems p call by (auto simp: Let_def split: sum.split_asm if_split_asm)
  from Cons.IH [OF rec] s1 show ?case by auto
qed

lemma detect_language_frame:
  assumes "ASREngine_detect_language X audio sample_rate s = (lang, s')"
  shows "russian_model_name s' = russian_model_name s \<and>
         english_model_name s' = english_model_name s \<and>
         language s' = language s \<and> vad s' = vad s \<and> models s' = models s \<and>
         cpu_only_languages s' = cpu_only_languages s \<and>
         (\<exists>new. trace s' = trace s @ new)"
  using assms unfolding ASREngine_detect_language_def Let_def by (rule detect_loop_frame)

lemma resolve_language_frame:
  assumes "resolve_language X audio sample_rate language_arg s = (lang, s')"
  shows "russian_model_name s' = russian_model_name s \<and>
         english_model_name s' = english_model_name s \<and>
         language s' = language s \<and> vad s' = vad s \<and> models s' = models s \<and>
         cpu_only_languages s' = cpu_only_languages s \<and>
         (\<exists>new. trace s' = trace s @ new)"
  using assms detect_language_frame [of X audio sample_rate s lang s']
  by (auto simp: resolve_language_def Let_def split: if_split_asm)

lemma run_recognition_frame:
  assumes "ASREngine_run_recognition X m audio sample_rate lang s = (r, s')"
  shows "russian_model_name s' = russian_model_name s \<and>
         english_model_name s' = english_model_name s \<and>
         language s' = language s \<and> vad s' = vad s \<and> models s' = models s \<and>
         cpu_only_languages s' = cpu_only_languages s \<and>
         (\<exists>new. trace s' = trace s @ new)"
  using assms
  by (auto simp: ASREngine_run_recognition_def call_defs split: sum.split_asm prod.split_asm)

lemma evolves_resolve_language:
  assumes "resolve_language X audio sample_rate language_arg s = (lang, s')"
  shows "evolves l s s'"
  using resolve_language_frame [OF assms] by (auto intro: evolves_frame)

lemma evolves_run_recognition:
  assumes "ASREngine_run_recognition X m audio sample_rate lang s = (r, s')"
  shows "evolves l s s'"
  using run_recognition_frame [OF assms] by (auto intro: evolves_frame)

lemma evolves_log_event: "evolves l s (log_event ev s)"
  by (rule evolves_frame [where new = "[ev]"]) simp_all

lemma evolves_recognize_as:
  assumes run: "recognize_as X audio sample_rate lang s = (res, s')"
  shows "evolves l s s'"
proof (cases "map_of (models s) lang")
  case None
  with run show ?thesis by (simp add: recognize_as_def evolves_refl)
next
  case (Some model)
  obtain r1 s1 where first: "ASREngine_run_recognition X model audio sample_rate lang s = (r1, s1)"
    by fastforce
  have e1: "evolves l s s1"
    using first by (rule evolves_run_recognition)
  show ?thesis
  proof (cases "\<exists>e name. r1 = Inl e \<and> \<not> (lang \<in> cpu_only_languages s1 \<or> \<not> is_coreml_runtime_failure e)
      \<and> ASREngine_model_name_for_language lang s1 = Inr name")
    case False
    then have "s' = s1"
      using run Some first
      by (auto simp: recognize_as_def split: sum.split_asm if_split_asm)
    with e1 show ?thesis by simp
  next
    case True
    then obtain e name where r1: "r1 = Inl e"
      and go: "\<not> (lang \<in> cpu_only_languages s1 \<or> \<not> is_coreml_runtime_failure e)"
      and name: "ASREngine_model_name_for_language lang s1 = Inr name"
      by blast
    have lang: "lang = ''ru'' \<or> lang = ''en''"
      using name by (auto simp: ASREngine_model_name_for_language_def split: if_split_asm)
    let ?s1 = "log_event (Warning (InferenceRetryWarning name e)) s1"
    obtain r2 s2 where load: "ASREngine_load_model X lang name True ?s1 = (r2, s2)"
      by fastforce
    have e2: "evolves l s s2"
      using e1 evolves_log_event [of l s1] evolves_load_model [OF load lang]
      by (blast intro: evolves_trans)
    show ?thesis
    proof (cases "\<exists>reloaded. r2 = Inr () \<and> map_of (models s2) lang = Some reloaded")
      case False
      then have "s' = s2"
        using run Some first r1 go name load
        by (auto simp: recognize_as_def split: sum.split_asm option.split_asm)
      with e2 show ?thesis by simp
    next
      case True
      then obtain reloaded where r2: "r2 = Inr ()"
        and reloaded: "map_of (models s2) lang = Some reloaded"
        by blast
      obtain r3 s3 where again: "ASREngine_run_recognition X reloaded audio sample_rate lang s2 = (r3, s3)"
        by fastforce
      have "s' = s3"
        using run Some first r1 go name load r2 reloaded again
        by (auto simp: recognize_as_def split: sum.split_asm)
      with e2 evolves_run_recognition [OF again] show ?thesis
        by (blast intro: evolves_trans)
    qed
  qed
qed

lemma evolves_recognize:
  assumes run: "ASREngine_recognize X audio sample_rate language_arg s = (res, s')"
  shows "evolves l s s'"
proof -
  obtain lang s1 where resolve: "resolve_language X audio sample_rate language_arg s = (lang, s1)"
    by fastforce
  with run have "recognize_as X audio sample_rate lang s1 = (res, s')"
    by (simp add: ASREngine_recognize_def)
  then have "evolves l s1 s'"
    by (rule evolves_recognize_as)
  with evolves_resolve_language [OF resolve] show ?thesis
    by (blast intro: evolves_trans)
qed


lemma evolves_call_load_vad:
  assumes "call_load_vad X name s = (r, s')"
  shows "evolves l s s'"
  using assms
  by (auto simp: call_defs split: prod.split_asm intro!: evolves_frame)

lemma evolves_vad_update: "evolves l s (s\<lparr>vad := v\<rparr>)"
  by (rule evolves_frame [where new = "[]"]) simp_all

lemma evolves_language_update: "evolves l s (s\<lparr>language := v\<rparr>)"
  by (rule evolves_frame [where new = "[]"]) simp_all

lemma evolves_load_ru:
  assumes "ASREngine_load_model X ''ru'' (russian_model_name s) False s = (r, s')"
  shows "evolves l s s'"
  using assms by (rule evolves_load_model) (simp_all add: ASREngine_model_name_for_language_def)

lemma evolves_load_en:
  assumes "ASREngine_load_model X ''en'' (english_model_name s) False s = (r, s')"
  shows "evolves l s s'"
  using assms by (rule evolves_load_model) (simp_all add: ASREngine_model_name_for_language_def)

lemma evolves_initialize:
  assumes run: "ASREngine_initialize X s = (res, s')"
  shows "evolves l s s'"
proof -
  obtain rv s1 where v: "call_load_vad X ''silero'' s = (rv, s1)"
    by fastforce
  have e1: "evolves l s s1"
    using v by (rule evolves_call_load_vad)
  show ?thesis
  proof (cases rv)
    case (Inl e)
    with run v have "s' = s1"
      by (simp add: ASREngine_initialize_def)
    with e1 show ?thesis by simp
  next
    case (Inr vv)
    let ?s2 = "s1\<lparr>vad := Some vv\<rparr>"
    have e2: "evolves l s ?s2"
      using e1 evolves_vad_update [of l s1] by (blast intro: evolves_trans)
    obtain r3 s3 where ru: "(if language ?s2 = ''ru'' \<or> language ?s2 = ''auto''
                    then (case ASREngine_load_model X ''ru'' (russian_model_name ?s2) False ?s2 of
                            (Inl e, s3) \<Rightarrow> (Inl e, s3)
                          | (Inr u, s3) \<Rightarrow> (Inr [russian_model_name s3], s3))
                    else (Inr [], ?s2)) = (r3, s3)"
      by fastforce
    have "evolves l ?s2 s3"
      using ru
      by (auto split: if_split_asm prod.split_asm sum.split_asm
            intro: evolves_refl evolves_load_ru)
    with e2 have e3: "evolves l s s3"
      by (blast intro: evolves_trans)
    have "evolves l s3 s'"
      using run v Inr ru
      by (auto simp: ASREngine_initialize_def Let_def
            split: if_split_asm prod.split_asm sum.split_asm
            intro: evolves_refl evolves_load_en)
    with e3 show ?thesis
      by (blast intro: evolves_trans)
  qed
qed

lemma evolves_set_language:
  assumes run: "ASREngine_set_language X lang s = (res, s')"
  shows "evolves l s s'"
proof -
  let ?s = "s\<lparr>language := lang\<rparr>"
  have e0: "evolves l s ?s"
    by (rule evolves_language_update)
  have "evolves l ?s s'"
  proof (cases "lang = ''auto''")
    case False
    with run show ?thesis
      by (auto simp: ASREngine_set_language_def Let_def split: if_split_asm
            intro: evolves_refl evolves_load_ru evolves_load_en)
  next
    case True
    obtain r1 s1 where ru: "(if not_in_models ''ru'' ?s
                     then ASREngine_load_model X ''ru'' (russian_model_name ?s) False ?s
                     else (Inr (), ?s)) = (r1, s1)"
      by fastforce
    have e1: "evolves l ?s s1"
      using ru by (auto split: if_split_asm intro: evolves_refl evolves_load_ru)
    have "evolves l s1 s'"
      using run True ru
      by (auto simp: ASREngine_set_language_def Let_def
            split: if_split_asm sum.split_asm
            intro: evolves_refl evolves_load_en)
    with e1 show ?thesis
      by (blast intro: evolves_trans)
  qed
  with e0 show ?thesis
    by (blast intro: evolves_trans)
qed

lemma evolves_perform: "evolves l s (perform X op s)"
proof (cases op)
  case Initialize
  then show ?thesis
    using evolves_initialize [of X s "fst (ASREngine_initialize X s)" "snd (ASREngine_initialize X s)"]
    by simp
next
  case (RecognizeAudio audio sample_rate language_arg)
  then show ?thesis
    using evolves_recognize [of X audio sample_rate language_arg s
        "fst (ASREngine_recognize X audio sample_rate language_arg s)"
        "snd (ASREngine_recognize X audio sample_rate language_arg s)"]
    by simp
next
  case (SetLanguage lang)
  then show ?thesis
    using evolves_set_language [of X lang s "fst (ASREngine_set_language X lang s)"
        "snd (ASREngine_set_language X lang s)"]
    by simp
qed

lemma evolves_perform_all: "evolves l s (perform_all X ops s)"
  unfolding perform_all_def
proof (induction ops arbitrary: s)
  case Nil
  show ?case by (simp add: evolves_refl)
next
  case (Cons op ops)
  show ?case
    using evolves_perform [of l s X op] Cons.IH [of "perform X op s"]
    by (auto intro: evolves_trans)
qed

text \<open>
  Every engine that the operations reach from a constructed one stores models for
  supported languages only.
\<close>

lemma models_supported_reachable:
  "models_supported (perform_all X ops (ASREngine russian_model english_model lang w))"
  using evolves_perform_all [of lang "ASREngine russian_model english_model lang w" X ops]
  by (simp add: evolves_def models_supported_ASREngine)

subsection \<open>The mark of a language that runs on the CPU\<close>

lemma cpu_only_load_model_forced:
  assumes "ASREngine_load_model X lang name True s = (res, s')"
  shows "cpu_only_languages s \<subseteq> cpu_only_languages s'"
  using assms
  by (auto simp: ASREngine_load_model_def store_with_vad_def call_defs
        split: sum.split_asm prod.split_asm)

lemma cpu_only_recognize_as:
  assumes run: "recognize_as X audio sample_rate lang s = (res, s')"
  shows "cpu_only_languages s \<subseteq> cpu_only_languages s'"
proof (cases "map_of (models s) lang")
  case None
  with run show ?thesis by (simp add: recognize_as_def)
next
  case (Some model)
  obtain r1 s1 where first: "ASREngine_run_recognition X model audio sample_rate lang s = (r1, s1)"
    by fastforce
  have c1: "cpu_only_languages s1 = cpu_only_languages s"
    using run_recognition_frame [OF first] by simp
  show ?thesis
  proof (cases "\<exists>e name. r1 = Inl e \<and> \<not> (lang \<in> cpu_only_languages s1 \<or> \<not> is_coreml_runtime_failure e)
      \<and> ASREngine_model_name_for_language lang s1 = Inr name")
    case False
    then have "s' = s1"
      using run Some first
      by (auto simp: recognize_as_def split: sum.split_asm if_split_asm)
    with c1 show ?thesis by simp
  next
    case True
    then obtain e name where r1: "r1 = Inl e"
      and go: "\<not> (lang \<in> cpu_only_languages s1 \<or> \<not> is_coreml_runtime_failure e)"
      and name: "ASREngine_model_name_for_language lang s1 = Inr name"
      by blast
    let ?s1 = "log_event (Warning (InferenceRetryWarning name e)) s1"
    obtain r2 s2 where load: "ASREngine_load_model X lang name True ?s1 = (r2, s2)"
      by fastforce
    have c2: "cpu_only_languages s \<subseteq> cpu_only_languages s2"
      using cpu_only_load_model_forced [OF load] c1 by simp
    show ?thesis
    proof (cases "\<exists>reloaded. r2 = Inr () \<and> map_of (models s2) lang = Some reloaded")
      case False
      then have "s' = s2"
        using run Some first r1 go name load
        by (auto simp: recognize_as_def split: sum.split_asm option.split_asm)
      with c2 show ?thesis by simp
    next
      case True
      then obtain reloaded where r2: "r2 = Inr ()"
        and reloaded: "map_of (models s2) lang = Some reloaded"
        by blast
      obtain r3 s3 where again: "ASREngine_run_recognition X reloaded audio sample_rate lang s2 = (r3, s3)"
        by fastforce
      have "s' = s3"
        using run Some first r1 go name load r2 reloaded again
        by (auto simp: recognize_as_def split: sum.split_asm)
      with c2 run_recognition_frame [OF again] show ?thesis
        by simp
    qed
  qed
qed

lemma cpu_only_recognize:
  "cpu_only_languages s \<subseteq>
     cpu_only_languages (snd (ASREngine_recognize X audio sample_rate language_arg s))"
proof -
  obtain lang s1 where resolve: "resolve_language X audio sample_rate language_arg s = (lang, s1)"
    by fastforce
  obtain res s' where run: "recognize_as X audio sample_rate lang s1 = (res, s')"
    by fastforce
  show ?thesis
    using resolve_language_frame [OF resolve] cpu_only_recognize_as [OF run] resolve run
    by (simp add: ASREngine_recognize_def)
qed

lemma set_language_stored:
  assumes "map_of (models s) ''ru'' \<noteq> None" and "map_of (models s) ''en'' \<noteq> None"
  shows "ASREngine_set_language X lang s = (Inr (), s\<lparr>language := lang\<rparr>)"
  using assms by (auto simp: ASREngine_set_language_def not_in_models_def Let_def)













lemmas engine_defs =
  ASREngine_recognize_def resolve_language_def requested_language_def recognize_as_def
  ASREngine_run_recognition_def ASREngine_load_model_def ASREngine_model_name_for_language_def
  ASREngine_detect_language_def ASREngine_initialize_def ASREngine_set_language_def
  not_in_models_def store_with_vad_def call_defs text_of_def getattr_or_zero_def Let_def

lemma strip_demo_whisper [simp]:
  "strip (ascii '' whisper-base '') = ascii ''whisper-base''"
  by (simp add: strip_def ascii_def is_space_def)




subsection \<open>The error for a language without a model\<close>

lemma recognize_as_no_model:
  assumes "map_of (models s) lang = None"
  shows "recognize_as X audio sample_rate lang s = (Inl (NoModelLoaded lang), s)"
  using assms by (simp add: recognize_as_def)

lemma recognize_as_stored:
  assumes stored: "map_of (models s) lang = Some model"
    and lang: "lang = ''ru'' \<or> lang = ''en''"
  shows "fst (recognize_as X audio sample_rate lang s) \<noteq> Inl (NoModelLoaded l) \<and>
         (\<exists>r rest. trace (snd (recognize_as X audio sample_rate lang s)) =
            trace s @ Recognize model audio sample_rate r # rest)"
proof -
  obtain res s' where run: "recognize_as X audio sample_rate lang s = (res, s')"
    by fastforce
  then show ?thesis
    using stored lang
    by (auto simp: recognize_as_def ASREngine_run_recognition_def ASREngine_load_model_def
          ASREngine_model_name_for_language_def store_with_vad_def call_defs map_of_update_same
          split: sum.split_asm prod.split_asm if_split_asm option.split_asm)
qed

lemma load_model_stores_wrapped:
  assumes "ASREngine_load_model X lang name force_cpu s = (Inr (), s')"
  shows "\<exists>m wrapped. last (trace s') = WithVad m (vad s) (Inr wrapped) \<and>
           map_of (models s') lang = Some wrapped \<and> vad s' = vad s"
  using assms
  by (auto simp: ASREngine_load_model_def store_with_vad_def call_defs map_of_update_same
        split: sum.split_asm prod.split_asm if_split_asm)

text \<open>
  Claim C7. \<^verbatim>\<open>recognize\<close> raises the error "No model loaded for language" for a
  language if and only if that is the language the request resolved to and no model is
  stored for it; it then returns without a call of any recognizer. A \<^verbatim>\<open>_load_model\<close>
  that returns has stored, for its language, what \<^verbatim>\<open>with_vad\<close> made of the loaded model
  and of the detector of the engine; a \<^verbatim>\<open>recognize\<close> for that language, when it is one
  of the two supported ones, then begins with an inference on that stored model and does
  not raise the error.
\<close>

theorem no_model_error:
  "(resolve_language X audio sample_rate language_arg s0 = (lang, s) \<longrightarrow>
      (fst (ASREngine_recognize X audio sample_rate language_arg s0) = Inl (NoModelLoaded l)
         \<longleftrightarrow> l = lang \<and> map_of (models s) lang = None) \<and>
      (map_of (models s) lang = None \<longrightarrow>
         snd (ASREngine_recognize X audio sample_rate language_arg s0) = s)) \<and>
   (ASREngine_load_model X lang name force_cpu s1 = (Inr (), s2) \<longrightarrow>
      (\<exists>m wrapped.
         last (trace s2) = WithVad m (vad s1) (Inr wrapped) \<and>
         map_of (models s2) lang = Some wrapped \<and>
         (lang = ''ru'' \<or> lang = ''en'' \<longrightarrow>
            fst (ASREngine_recognize X audio sample_rate (Some lang) s2) \<noteq> Inl (NoModelLoaded l) \<and>
            (\<exists>r rest. trace (snd (ASREngine_recognize X audio sample_rate (Some lang) s2)) =
               trace s2 @ Recognize wrapped audio sample_rate r # rest))))"
proof (intro conjI impI)
  assume resolve: "resolve_language X audio sample_rate language_arg s0 = (lang, s)"
  then have run: "ASREngine_recognize X audio sample_rate language_arg s0 =
      recognize_as X audio sample_rate lang s"
    by (simp add: ASREngine_recognize_def)
  show "fst (ASREngine_recognize X audio sample_rate language_arg s0) = Inl (NoModelLoaded l)
         \<longleftrightarrow> l = lang \<and> map_of (models s) lang = None"
  proof (cases "map_of (models s) lang")
    case None
    then show ?thesis
      by (auto simp: run recognize_as_no_model)
  next
    case (Some model)
    obtain res s' where "recognize_as X audio sample_rate lang s = (res, s')"
      by fastforce
    then have "res \<noteq> Inl (NoModelLoaded l)"
      using Some
      by (auto simp: recognize_as_def ASREngine_run_recognition_def ASREngine_load_model_def
            ASREngine_model_name_for_language_def store_with_vad_def call_defs
            split: sum.split_asm prod.split_asm if_split_asm option.split_asm)
    with \<open>recognize_as X audio sample_rate lang s = (res, s')\<close> Some show ?thesis
      by (simp add: run)
  qed
  assume "map_of (models s) lang = None"
  then show "snd (ASREngine_recognize X audio sample_rate language_arg s0) = s"
    by (simp add: run recognize_as_no_model)
next
  assume load: "ASREngine_load_model X lang name force_cpu s1 = (Inr (), s2)"
  from load_model_stores_wrapped [OF load]
  obtain m wrapped where last: "last (trace s2) = WithVad m (vad s1) (Inr wrapped)"
    and stored: "map_of (models s2) lang = Some wrapped"
    by blast
  have "fst (ASREngine_recognize X audio sample_rate (Some lang) s2) \<noteq> Inl (NoModelLoaded l) \<and>
            (\<exists>r rest. trace (snd (ASREngine_recognize X audio sample_rate (Some lang) s2)) =
               trace s2 @ Recognize wrapped audio sample_rate r # rest)"
    if lang: "lang = ''ru'' \<or> lang = ''en''"
  proof -
    have "resolve_language X audio sample_rate (Some lang) s2 = (lang, s2)"
      using lang by (auto simp: resolve_language_def requested_language_def)
    then have "ASREngine_recognize X audio sample_rate (Some lang) s2 =
        recognize_as X audio sample_rate lang s2"
      by (simp add: ASREngine_recognize_def)
    then show ?thesis
      using recognize_as_stored [OF stored lang] by simp
  qed
  with last stored
  show "\<exists>m wrapped.
         last (trace s2) = WithVad m (vad s1) (Inr wrapped) \<and>
         map_of (models s2) lang = Some wrapped \<and>
         (lang = ''ru'' \<or> lang = ''en'' \<longrightarrow>
            fst (ASREngine_recognize X audio sample_rate (Some lang) s2) \<noteq> Inl (NoModelLoaded l) \<and>
            (\<exists>r rest. trace (snd (ASREngine_recognize X audio sample_rate (Some lang) s2)) =
               trace s2 @ Recognize wrapped audio sample_rate r # rest))"
    by blast
qed


text \<open>
  An engine that holds the Russian model only raises the error for English, with
  nothing logged; once the English model is loaded the same request is answered by
  the model that was stored.
\<close>

theorem no_model_error_witness:
  "resolve_language demo_onnx [1 / 2] 16000 (Some ''en'') demo_fallen_back
     = (''en'', demo_fallen_back) \<and>
   ASREngine_recognize demo_onnx [1 / 2] 16000 (Some ''en'') demo_fallen_back
     = (Inl (NoModelLoaded ''en''), demo_fallen_back) \<and>
   ASREngine_load_model demo_onnx ''en'' ''whisper-base'' False demo_fallen_back
     = (Inr (),
        demo_fallen_back
          \<lparr> models := [(''ru'', Wrapped (Loaded ''gigaam-v3-rnnt'' CPUExecutionProviderOnly)),
                       (''en'', Wrapped (Loaded ''whisper-base'' DefaultProviders))],
            world := 2,
            trace :=
              [LoadModel ''whisper-base'' DefaultProviders (Inr (Loaded ''whisper-base'' DefaultProviders)),
               WithVad (Loaded ''whisper-base'' DefaultProviders) (Some ''silero'')
                 (Inr (Wrapped (Loaded ''whisper-base'' DefaultProviders)))] \<rparr>) \<and>
   fst (ASREngine_recognize demo_onnx [1 / 2] 16000 (Some ''en'')
          (snd (ASREngine_load_model demo_onnx ''en'' ''whisper-base'' False demo_fallen_back)))
     = Inr [\<lparr> seg_start = 1 / 2, seg_end = 3 / 2, seg_text = ascii ''whisper-base'',
               seg_language = ''en'', seg_source = None \<rparr>]"
proof -
  have resolve: "resolve_language demo_onnx [1 / 2] 16000 (Some ''en'') demo_fallen_back
     = (''en'', demo_fallen_back)"
    by (simp add: resolve_language_def requested_language_def Let_def)
  have load: "ASREngine_load_model demo_onnx ''en'' ''whisper-base'' False demo_fallen_back
     = (Inr (),
        demo_fallen_back
          \<lparr> models := [(''ru'', Wrapped (Loaded ''gigaam-v3-rnnt'' CPUExecutionProviderOnly)),
                       (''en'', Wrapped (Loaded ''whisper-base'' DefaultProviders))],
            world := 2,
            trace :=
              [LoadModel ''whisper-base'' DefaultProviders (Inr (Loaded ''whisper-base'' DefaultProviders)),
               WithVad (Loaded ''whisper-base'' DefaultProviders) (Some ''silero'')
                 (Inr (Wrapped (Loaded ''whisper-base'' DefaultProviders)))] \<rparr>)"
    by (simp add: demo_fallen_back_def engine_defs demo_defs)
  show ?thesis
    using no_model_error [of demo_onnx "[1 / 2]" 16000 "Some ''en''" demo_fallen_back "''en''"
        demo_fallen_back "''en''" "''whisper-base''" False demo_fallen_back
        "snd (ASREngine_load_model demo_onnx ''en'' ''whisper-base'' False demo_fallen_back)"]
    by (simp add: resolve load) (simp add: demo_fallen_back_def engine_defs demo_defs)
qed

subsection \<open>The detection of the language\<close>

lemma fold_max_ge: "(a::nat) \<le> fold max xs a"
proof (induction xs arbitrary: a)
  case Nil
  show ?case by simp
next
  case (Cons x xs)
  have "a \<le> max x a" by simp
  also have "\<dots> \<le> fold max xs (max x a)" by (rule Cons.IH)
  finally show ?case by simp
qed

text \<open>The two variables of the loop as one pair that a longer text replaces.\<close>

lemma fold_longer:
  fixes scored :: "(string \<times> nat) list"
  assumes "fold (\<lambda>p b. if snd b < snd p then p else b) scored b = b'"
  shows "snd b' = fold max (map snd scored) (snd b) \<and>
         (if snd b' = snd b then b' = b else find (\<lambda>p. snd p = snd b') scored = Some b')"
  using assms
proof (induction scored arbitrary: b)
  case Nil
  then show ?case by simp
next
  case (Cons p ps)
  let ?b1 = "if snd b < snd p then p else b"
  have run: "fold (\<lambda>p b. if snd b < snd p then p else b) ps ?b1 = b'"
    using Cons.prems by simp
  note IH = Cons.IH [OF run]
  have ge: "snd ?b1 \<le> snd b'"
    using IH fold_max_ge [of "snd ?b1" "map snd ps"] by simp
  show ?case
  proof (cases "snd b < snd p")
    case True
    then have m: "max (snd p) (snd b) = snd p" by simp
    from True IH ge show ?thesis
      by (auto simp: m)
  next
    case False
    then have m: "max (snd p) (snd b) = snd b" by simp
    from False IH ge show ?thesis
      by (auto simp: m)
  qed
qed

lemma fold_longer_is_longest:
  "fst (fold (\<lambda>p b. if snd b < snd p then p else b) scored (fallback, 0)) =
     longest_text_language fallback scored"
proof -
  obtain b' where b': "fold (\<lambda>p b. if snd b < snd p then p else b) scored (fallback, 0) = b'"
    by simp
  from fold_longer [OF b'] show ?thesis
    by (auto simp: longest_text_language_def Let_def b' split: if_split_asm)
qed

lemma detect_loop_fold:
  assumes "detect_loop X sample sample_rate ms best_lang best_len s = (lang, s')"
  shows "\<exists>outcomes.
           length outcomes = length ms \<and>
           trace s' = trace s @ detection_events sample sample_rate ms outcomes \<and>
           lang = fst (fold (\<lambda>p b. if snd b < snd p then p else b)
                         (zip (map fst ms) (map detection_score outcomes))
                         (best_lang, best_len))"
  using assms
proof (induction ms arbitrary: best_lang best_len s)
  case Nil
  then show ?case by (simp add: detection_events_def)
next
  case (Cons p ms)
  obtain l m where p: "p = (l, m)" by (cases p)
  obtain r s1 where call: "call_recognize X m sample sample_rate s = (r, s1)"
    by fastforce
  have s1: "trace s1 = trace s @ [Recognize m sample sample_rate r]"
    using call by (auto simp: call_defs split: prod.split_asm)
  let ?b = "if best_len < detection_score r then (l, detection_score r) else (best_lang, best_len)"
  have rec: "detect_loop X sample sample_rate ms (fst ?b) (snd ?b) s1 = (lang, s')"
    using Cons.prems p call
    by (auto simp: Let_def detection_score_def split: sum.split_asm if_split_asm)
  from Cons.IH [OF rec] obtain outcomes where len: "length outcomes = length ms"
    and tr: "trace s' = trace s1 @ detection_events sample sample_rate ms outcomes"
    and res: "lang = fst (fold (\<lambda>p b. if snd b < snd p then p else b)
                         (zip (map fst ms) (map detection_score outcomes)) (fst ?b, snd ?b))"
    by blast
  have "length (r # outcomes) = length (p # ms) \<and>
        trace s' = trace s @ detection_events sample sample_rate (p # ms) (r # outcomes) \<and>
        lang = fst (fold (\<lambda>p b. if snd b < snd p then p else b)
                      (zip (map fst (p # ms)) (map detection_score (r # outcomes)))
                      (best_lang, best_len))"
    using len tr res s1 p by (simp add: detection_events_def)
  then show ?case by blast
qed




lemma demo_scores [simp]:
  "detection_score (Inr (demo_transcript ''gigaam-v3-rnnt'' (x # xs))) = 14"
  "detection_score (Inr (demo_transcript ''whisper-base'' (x # xs))) = 12"
  "detection_score (Inl e) = 0"
  by (simp_all add: detection_score_def text_of_def strip_def ascii_def is_space_def)


subsection \<open>The fallback of the detection\<close>

lemma silent_detection_events:
  assumes "list_all silent (detection_events sample sample_rate ms outcomes)"
    and "length outcomes = length ms"
  shows "list_all (\<lambda>r. detection_score r = 0) outcomes"
  using assms
proof (induction ms arbitrary: outcomes)
  case Nil
  then show ?case by simp
next
  case (Cons p ms)
  then obtain r rs where "outcomes = r # rs" by (cases outcomes) auto
  with Cons show ?case by (auto simp: detection_events_def)
qed

lemma fold_max_zero:
  "list_all (\<lambda>n. n = 0) ns \<Longrightarrow> fold max ns (0::nat) = 0"
  by (induction ns) auto

lemma longest_text_language_silent:
  assumes "list_all (\<lambda>r. detection_score r = 0) outcomes"
  shows "longest_text_language fallback (zip langs (map detection_score outcomes)) = fallback"
proof -
  have "list_all (\<lambda>n. n = 0) (map snd (zip langs (map detection_score outcomes)))"
    using assms by (auto simp: list_all_iff dest!: set_zip_rightD)
  then show ?thesis
    by (simp add: longest_text_language_def fold_max_zero)
qed

text \<open>
  Claim C10. The language that the detection falls back to is \<^verbatim>\<open>"en"\<close>, whatever the
  stored models: when the request is for \<^verbatim>\<open>"auto"\<close> and every inference of the
  detection raised or returned no text but blanks, the detection returns \<^verbatim>\<open>"en"\<close>, and
  when no model is stored for \<^verbatim>\<open>"en"\<close> the call of \<^verbatim>\<open>recognize\<close> raises the error
  "No model loaded for language: en".
\<close>

theorem auto_falls_back_to_english:
  assumes auto: "requested_language language_arg s = ''auto''"
    and quiet: "list_all silent
                  (new_events s (snd (ASREngine_detect_language X audio sample_rate s)))"
  shows "fst (ASREngine_detect_language X audio sample_rate s) = ''en'' \<and>
         (map_of (models s) ''en'' = None \<longrightarrow>
            fst (ASREngine_recognize X audio sample_rate language_arg s)
              = Inl (NoModelLoaded ''en''))"
proof -
  obtain lang s' where run: "ASREngine_detect_language X audio sample_rate s = (lang, s')"
    by fastforce
  then have "detect_loop X (slice_to audio (min (int (length audio)) (sample_rate * 5)))
               sample_rate (models s) ''en'' 0 s = (lang, s')"
    by (simp add: ASREngine_detect_language_def Let_def)
  from detect_loop_fold [OF this] obtain outcomes
    where len: "length outcomes = length (models s)"
      and tr: "trace s' = trace s @
             detection_events (slice_to audio (min (int (length audio)) (sample_rate * 5)))
               sample_rate (models s) outcomes"
      and res: "lang = longest_text_language ''en''
                    (zip (map fst (models s)) (map detection_score outcomes))"
    by (auto simp: fold_longer_is_longest)
  have "list_all (\<lambda>r. detection_score r = 0) outcomes"
    using quiet len by (auto simp: run new_events_def tr intro: silent_detection_events)
  then have lang: "lang = ''en''"
    using res by (simp add: longest_text_language_silent)
  have "models s' = models s"
    using detect_language_frame [OF run] by simp
  then have "fst (ASREngine_recognize X audio sample_rate language_arg s)
              = Inl (NoModelLoaded ''en'')" if "map_of (models s) ''en'' = None"
    using that auto run lang
    by (simp add: ASREngine_recognize_def resolve_language_def recognize_as_no_model)
  with run lang show ?thesis by simp
qed

lemma demo_initialized_russian:
  "ASREngine_initialize demo_onnx (ASREngine ''gigaam-v3-rnnt'' ''whisper-base'' ''ru'' 0)
     = (Inr [''gigaam-v3-rnnt''],
        (demo_engine ''gigaam-v3-rnnt'' ''whisper-base'' ''ru'')
          \<lparr> models := [(''ru'', Wrapped (Loaded ''gigaam-v3-rnnt'' DefaultProviders))],
            world := 3,
            trace :=
              [LoadVad ''silero'' (Inr ''silero''),
               LoadModel ''gigaam-v3-rnnt'' DefaultProviders (Inr (Loaded ''gigaam-v3-rnnt'' DefaultProviders)),
               WithVad (Loaded ''gigaam-v3-rnnt'' DefaultProviders) (Some ''silero'')
                 (Inr (Wrapped (Loaded ''gigaam-v3-rnnt'' DefaultProviders)))] \<rparr>)"
  by (simp add: engine_defs demo_defs)

text \<open>
  An engine constructed and initialized for Russian only, asked to detect the
  language: its one recognizer fails, the detection answers \<^verbatim>\<open>"en"\<close>, and the request
  ends with the error.
\<close>

theorem auto_falls_back_to_english_witness:
  "requested_language (Some ''auto'')
     (snd (ASREngine_initialize demo_onnx (ASREngine ''gigaam-v3-rnnt'' ''whisper-base'' ''ru'' 0)))
     = ''auto'' \<and>
   list_all silent
     (new_events
        (snd (ASREngine_initialize demo_onnx (ASREngine ''gigaam-v3-rnnt'' ''whisper-base'' ''ru'' 0)))
        (snd (ASREngine_detect_language demo_onnx [1 / 2] 16000
           (snd (ASREngine_initialize demo_onnx
              (ASREngine ''gigaam-v3-rnnt'' ''whisper-base'' ''ru'' 0)))))) \<and>
   map_of (models (snd (ASREngine_initialize demo_onnx
       (ASREngine ''gigaam-v3-rnnt'' ''whisper-base'' ''ru'' 0)))) ''en'' = None \<and>
   fst (ASREngine_recognize demo_onnx [1 / 2] 16000 (Some ''auto'')
      (snd (ASREngine_initialize demo_onnx (ASREngine ''gigaam-v3-rnnt'' ''whisper-base'' ''ru'' 0))))
     = Inl (NoModelLoaded ''en'')"
proof -
  let ?s = "snd (ASREngine_initialize demo_onnx (ASREngine ''gigaam-v3-rnnt'' ''whisper-base'' ''ru'' 0))"
  have auto: "requested_language (Some ''auto'') ?s = ''auto''"
    by (simp add: requested_language_def)
  have quiet: "list_all silent (new_events ?s (snd (ASREngine_detect_language demo_onnx [1 / 2] 16000 ?s)))"
    by (simp add: demo_initialized_russian new_events_def)
       (simp add: engine_defs demo_defs slice_to_def)
  have no_en: "map_of (models ?s) ''en'' = None"
    by (simp add: demo_initialized_russian)
  show ?thesis
    using auto_falls_back_to_english [OF auto quiet] auto quiet no_en
    by simp
qed

subsection \<open>The segments and the full text of a transcription\<close>

lemma strip_ends:
  "strip s = [] \<or> (\<not> is_space (hd (strip s)) \<and> \<not> is_space (last (strip s)))"
proof (cases "strip s = []")
  case True
  then show ?thesis by simp
next
  case False
  let ?u = "dropWhile is_space s"
  let ?v = "dropWhile is_space (rev ?u)"
  have v: "?v \<noteq> []"
    using False by (simp add: strip_def)
  then have hdv: "\<not> is_space (hd ?v)"
    by (rule hd_dropWhile)
  have u: "?u \<noteq> []"
    using v by (metis dropWhile.simps(1) rev.simps(1))
  then have hdu: "\<not> is_space (hd ?u)"
    by (rule hd_dropWhile)
  have "rev ?u = takeWhile is_space (rev ?u) @ ?v"
    by simp
  then have "?u = rev ?v @ rev (takeWhile is_space (rev ?u))"
    by (metis rev_append rev_rev_ident)
  then have "hd ?u = hd (rev ?v)"
    using v by (metis hd_append2 rev_is_Nil_conv)
  with hdu hdv show ?thesis
    by (simp add: strip_def last_rev)
qed

lemma strip_strip: "strip (strip s) = strip s"
proof (cases "strip s = []")
  case True
  have "strip [] = []"
    by (simp add: strip_def)
  with True show ?thesis by simp
next
  case False
  with strip_ends [of s] have ends: "\<not> is_space (hd (strip s))" "\<not> is_space (last (strip s))"
    by simp_all
  have "dropWhile is_space (strip s) = strip s"
    using ends(1) by (simp add: dropWhile_eq_self_iff)
  moreover have "dropWhile is_space (rev (strip s)) = rev (strip s)"
    using ends(2) by (simp add: dropWhile_eq_self_iff hd_rev)
  ultimately show ?thesis
    by (simp add: strip_def [of "strip s"])
qed

lemma collect_segments_trimmed: "list_all trimmed_nonempty (collect_segments lang raw)"
  by (induction raw) (simp_all add: Let_def trimmed_nonempty_def strip_strip)

lemma run_recognition_trimmed:
  assumes "ASREngine_run_recognition X m audio sample_rate lang s = (Inr segments, s')"
  shows "list_all trimmed_nonempty segments"
  using assms
  by (auto simp: ASREngine_run_recognition_def collect_segments_trimmed
        split: prod.split_asm sum.split_asm)

lemma recognize_as_trimmed:
  assumes "recognize_as X audio sample_rate lang s = (Inr segments, s')"
  shows "list_all trimmed_nonempty segments"
  using assms
  by (auto simp: recognize_as_def
        split: option.split_asm prod.split_asm sum.split_asm if_split_asm
        dest: run_recognition_trimmed)

lemma recognize_trimmed:
  assumes "ASREngine_recognize X audio sample_rate language_arg s = (Inr segments, s')"
  shows "list_all trimmed_nonempty segments"
  using assms
  by (auto simp: ASREngine_recognize_def split: prod.split_asm dest: recognize_as_trimmed)

lemma with_source_trimmed:
  "list_all trimmed_nonempty segments \<Longrightarrow> list_all trimmed_nonempty (with_source segments source)"
  by (simp add: with_source_def list_all_iff trimmed_nonempty_def)

lemma recognize_channels_trimmed:
  assumes "recognize_channels X audio sample_rate s = (Inr segments, s')"
  shows "list_all trimmed_nonempty segments"
proof (cases audio)
  case (Arr1 xs)
  with assms show ?thesis
    by (auto simp: recognize_channels_def dest: recognize_trimmed)
next
  case (Arr2 c rows)
  show ?thesis
  proof (cases "c = 1")
    case True
    with assms Arr2 show ?thesis
      by (auto simp: recognize_channels_def dest: recognize_trimmed)
  next
    case False
    with assms Arr2 obtain mic speaker s1 s2
      where mic: "ASREngine_recognize X (column 0 rows) sample_rate None s1 = (Inr mic, s2)"
        and speaker: "ASREngine_recognize X (column 1 rows) sample_rate None s2 = (Inr speaker, s')"
        and segments: "segments = sort_key segment_key
               (with_source mic MIC_SOURCE @ with_source speaker SPEAKER_SOURCE)"
      by (auto simp: recognize_channels_def Let_def
            split: if_split_asm prod.split_asm sum.split_asm)
    have "list_all trimmed_nonempty (with_source mic MIC_SOURCE @ with_source speaker SPEAKER_SOURCE)"
      using recognize_trimmed [OF mic] recognize_trimmed [OF speaker]
      by (simp add: with_source_trimmed)
    then show ?thesis
      by (simp add: segments list_all_iff)
  qed
qed

text \<open>
  Claim C5. When a transcription returns, its full text is the texts of the returned
  segments, in the order returned, joined by one blank, and every returned segment has
  a text that is trimmed and not empty: a segment whose text is empty or blank was
  dropped when the segments were collected.
\<close>

theorem full_text_of_nonempty_segments:
  assumes "fst (transcribe X np sf_read audio_path lang russian_model english_model w)
             = Inr (segments, full_text)"
  shows "full_text = join [32] (map seg_text segments) \<and>
         (\<forall>seg \<in> set segments. strip (seg_text seg) \<noteq> [] \<and> strip (seg_text seg) = seg_text seg)"
proof -
  from assms obtain audio sample_rate s1 s2
    where "recognize_channels X audio sample_rate s1 = (Inr segments, s2)"
      and full: "full_text = join [32] (map seg_text segments)"
    by (auto simp: transcribe_def transcribe_audio_def
          split: sum.split_asm prod.split_asm)
  then have "list_all trimmed_nonempty segments"
    by (auto dest: recognize_channels_trimmed)
  with full show ?thesis
    by (auto simp: list_all_iff trimmed_nonempty_def)
qed


lemmas transcriber_defs =
  transcribe_def transcribe_audio_def recognize_channels_def resample_to_16k_def
  with_source_def segment_key_def column_def MIC_SOURCE_def SPEAKER_SOURCE_def

lemma source_order: "MIC_SOURCE < SPEAKER_SOURCE"
  by (simp add: MIC_SOURCE_def SPEAKER_SOURCE_def)

lemma join_demo [simp]:
  "join [32] [ascii ''whisper-base'', ascii ''whisper-base''] = ascii ''whisper-base whisper-base''"
  by (simp add: ascii_def)

lemma demo_stereo:
  "fst (transcribe demo_onnx demo_numpy demo_sf_read ''stereo.wav'' ''en''
          ''gigaam-v3-rnnt'' ''whisper-base'' 0)
     = Inr ([\<lparr> seg_start = 0, seg_end = 1, seg_text = ascii ''whisper-base'',
                 seg_language = ''en'', seg_source = Some ''speaker/speak'' \<rparr>,
              \<lparr> seg_start = 1 / 5, seg_end = 6 / 5, seg_text = ascii ''whisper-base'',
                 seg_language = ''en'', seg_source = Some ''mic/speak'' \<rparr>],
             ascii ''whisper-base whisper-base'')"
  by (simp add: transcriber_defs demo_sf_read_def engine_defs demo_defs)
     (simp add: ascii_def)

text \<open>
  The stereo file: each channel gives one segment with text and one of blanks, the two
  with text are returned, the earlier first, and the full text joins them.
\<close>

theorem full_text_of_nonempty_segments_witness:
  "fst (transcribe demo_onnx demo_numpy demo_sf_read ''stereo.wav'' ''en''
          ''gigaam-v3-rnnt'' ''whisper-base'' 0)
     = Inr ([\<lparr> seg_start = 0, seg_end = 1, seg_text = ascii ''whisper-base'',
                 seg_language = ''en'', seg_source = Some ''speaker/speak'' \<rparr>,
              \<lparr> seg_start = 1 / 5, seg_end = 6 / 5, seg_text = ascii ''whisper-base'',
                 seg_language = ''en'', seg_source = Some ''mic/speak'' \<rparr>],
             ascii ''whisper-base whisper-base'') \<and>
   ascii ''whisper-base whisper-base''
     = join [32] [ascii ''whisper-base'', ascii ''whisper-base''] \<and>
   strip (ascii ''whisper-base'') = ascii ''whisper-base''"
  using full_text_of_nonempty_segments [OF demo_stereo]
  by (simp add: demo_stereo)

subsection \<open>The two channels of a stereo buffer\<close>

text \<open>
  Claim C4. When the buffer that \<^verbatim>\<open>_resample_to_16k\<close> returns has two channels and
  \<open>N\<close> rows, \<^verbatim>\<open>transcribe\<close> calls \<^verbatim>\<open>engine.recognize\<close> on channel 0 and then on
  channel 1, each a one-dimensional buffer of \<open>N\<close> samples. An exception of either
  call is the outcome. Otherwise the segments returned are those of channel 0 with the
  source \<^verbatim>\<open>mic/speak\<close> followed by those of channel 1 with the source
  \<^verbatim>\<open>speaker/speak\<close>, sorted by \<^verbatim>\<open>(start, end, source)\<close>: they ascend in that key and
  are the same segments, as often.
\<close>

theorem stereo_channels_sorted:
  assumes read: "sf_read audio_path = Inr (audio0, rate0)"
    and norm: "resample_to_16k np audio0 rate0 = Inr (Arr2 2 rows, sample_rate)"
    and init: "ASREngine_initialize X (ASREngine russian_model english_model lang w)
                 = (Inr loaded, s)"
    and mic: "ASREngine_recognize X (column 0 rows) sample_rate None s = (mic_result, s1)"
    and speaker: "ASREngine_recognize X (column 1 rows) sample_rate None s1
                    = (speaker_result, s2)"
  shows "length (column 0 rows) = length rows \<and> length (column 1 rows) = length rows \<and>
         (case mic_result of
            Inl e \<Rightarrow>
              transcribe X np sf_read audio_path lang russian_model english_model w
                = (Inl e, world s1, trace s1)
          | Inr mic_segments \<Rightarrow>
              (case speaker_result of
                 Inl e \<Rightarrow>
                   transcribe X np sf_read audio_path lang russian_model english_model w
                     = (Inl e, world s2, trace s2)
               | Inr speaker_segments \<Rightarrow>
                   (\<exists>segments.
                      transcribe X np sf_read audio_path lang russian_model english_model w
                        = (Inr (segments, join [32] (map seg_text segments)), world s2, trace s2) \<and>
                      segments = sort_key segment_key
                        (map (\<lambda>seg. seg\<lparr>seg_source := Some MIC_SOURCE\<rparr>) mic_segments @
                         map (\<lambda>seg. seg\<lparr>seg_source := Some SPEAKER_SOURCE\<rparr>) speaker_segments) \<and>
                      sorted (map segment_key segments) \<and>
                      mset segments =
                        mset (map (\<lambda>seg. seg\<lparr>seg_source := Some MIC_SOURCE\<rparr>) mic_segments) +
                        mset (map (\<lambda>seg. seg\<lparr>seg_source := Some SPEAKER_SOURCE\<rparr>)
                                speaker_segments))))"
proof -
  have t: "transcribe X np sf_read audio_path lang russian_model english_model w =
      (case recognize_channels X (Arr2 2 rows) sample_rate s of
         (Inl e, s2) \<Rightarrow> (Inl e, world s2, trace s2)
       | (Inr segments, s2) \<Rightarrow>
           (Inr (segments, join [32] (map seg_text segments)), world s2, trace s2))"
    using read norm init by (simp add: transcribe_def transcribe_audio_def)
  have c: "recognize_channels X (Arr2 2 rows) sample_rate s =
      (case mic_result of
         Inl e \<Rightarrow> (Inl e, s1)
       | Inr mic_segments \<Rightarrow>
           (case speaker_result of
              Inl e \<Rightarrow> (Inl e, s2)
            | Inr speaker_segments \<Rightarrow>
                (Inr (sort_key segment_key
                        (with_source mic_segments MIC_SOURCE @
                         with_source speaker_segments SPEAKER_SOURCE)), s2)))"
    using mic speaker by (simp add: recognize_channels_def split: sum.splits)
  show ?thesis
    by (simp add: t c column_def with_source_def split: sum.splits)
qed

text \<open>
  The stereo file: two calls on buffers of two samples, and the segment of the second
  channel, which starts earlier, comes first.
\<close>

theorem stereo_channels_sorted_witness:
  "demo_sf_read ''stereo.wav'' = Inr (Arr2 2 [[1 / 5, 0], [1 / 2, 1 / 4]], 16000) \<and>
   resample_to_16k demo_numpy (Arr2 2 [[1 / 5, 0], [1 / 2, 1 / 4]]) 16000
     = Inr (Arr2 2 [[1 / 5, 0], [1 / 2, 1 / 4]], 16000) \<and>
   fst (ASREngine_initialize demo_onnx (ASREngine ''gigaam-v3-rnnt'' ''whisper-base'' ''en'' 0))
     = Inr [''whisper-base''] \<and>
   column 0 [[1 / 5, 0], [1 / 2, 1 / 4 :: rat]] = [1 / 5, 1 / 2] \<and>
   column 1 [[1 / 5, 0], [1 / 2, 1 / 4 :: rat]] = [0, 1 / 4] \<and>
   fst (transcribe demo_onnx demo_numpy demo_sf_read ''stereo.wav'' ''en''
          ''gigaam-v3-rnnt'' ''whisper-base'' 0)
     = Inr ([\<lparr> seg_start = 0, seg_end = 1, seg_text = ascii ''whisper-base'',
                 seg_language = ''en'', seg_source = Some ''speaker/speak'' \<rparr>,
              \<lparr> seg_start = 1 / 5, seg_end = 6 / 5, seg_text = ascii ''whisper-base'',
                 seg_language = ''en'', seg_source = Some ''mic/speak'' \<rparr>],
             ascii ''whisper-base whisper-base'')"
proof -
  let ?rows = "[[1 / 5, 0], [1 / 2, 1 / 4 :: rat]]"
  let ?init = "ASREngine_initialize demo_onnx (ASREngine ''gigaam-v3-rnnt'' ''whisper-base'' ''en'' 0)"
  let ?mic = "ASREngine_recognize demo_onnx (column 0 ?rows) 16000 None (snd ?init)"
  let ?speaker = "ASREngine_recognize demo_onnx (column 1 ?rows) 16000 None (snd ?mic)"
  have read: "demo_sf_read ''stereo.wav'' = Inr (Arr2 2 ?rows, 16000)"
    by (simp add: demo_sf_read_def)
  have norm: "resample_to_16k demo_numpy (Arr2 2 ?rows) 16000 = Inr (Arr2 2 ?rows, 16000)"
    by (simp add: resample_to_16k_def)
  have init: "?init = (Inr [''whisper-base''], snd ?init)"
    by (simp add: engine_defs demo_defs)
  have mic: "?mic = (fst ?mic, snd ?mic)" and speaker: "?speaker = (fst ?speaker, snd ?speaker)"
    by simp_all
  show ?thesis
    using stereo_channels_sorted [where sf_read = demo_sf_read and audio_path = "''stereo.wav''",
        OF read norm init mic speaker]
    by (simp add: read norm demo_stereo) (simp add: engine_defs demo_defs column_def)
qed

subsection \<open>Resampling\<close>

lemma length_np_arange [simp]: "length (np_arange np n) = n"
  by (simp add: np_arange_def)

lemma np_arange_eq_Nil [simp]: "np_arange np n = [] \<longleftrightarrow> n = 0"
  by (simp add: np_arange_def)

lemma np_arange_0 [simp]: "np_arange np 0 = []"
  by (simp add: np_arange_def)

lemma length_column [simp]: "length (column i rows) = length rows"
  by (simp add: column_def)


lemma interp_channels_empty:
  assumes "channel_indices \<noteq> []"
  shows "interp_channels np positions [] rows channel_indices =
           Inl (Exn ''ValueError'' ''array of sample points is empty'')"
  using assms by (cases channel_indices) (simp_all add: np_interp_def)

lemma interp_channels_rows:
  assumes "xp \<noteq> []" and "length xp = length rows"
  shows "interp_channels np positions xp rows channel_indices =
           Inr (map (\<lambda>i. map (\<lambda>q. interp_at np q xp (column i rows)) positions) channel_indices)"
  using assms by (induction channel_indices) (simp_all add: np_interp_def)

lemma np_stack_axis1_same_length:
  assumes "arrays \<noteq> []" and "\<forall>b \<in> set arrays. length b = n"
  shows "np_stack_axis1 arrays =
           Inr (Arr2 (length arrays) (map (\<lambda>j. map (\<lambda>b. b ! j) arrays) [0..<n]))"
  using assms by (cases arrays) (auto simp: np_stack_axis1_def list_all_iff)

lemma np_stack_axis1_channels:
  assumes "0 < c"
  shows "np_stack_axis1 (map (\<lambda>i. map (f i) positions) [0..<c]) =
           Inr (Arr2 c (map (\<lambda>j. map (\<lambda>i. f i (positions ! j)) [0..<c]) [0..<length positions]))"
proof -
  let ?arrays = "map (\<lambda>i. map (f i) positions) [0..<c]"
  have "?arrays \<noteq> []"
    using assms by simp
  moreover have "\<forall>b \<in> set ?arrays. length b = length positions"
    by auto
  ultimately have "np_stack_axis1 ?arrays =
      Inr (Arr2 (length ?arrays) (map (\<lambda>j. map (\<lambda>b. b ! j) ?arrays) [0..<length positions]))"
    by (rule np_stack_axis1_same_length)
  moreover have "map (\<lambda>j. map (\<lambda>b. b ! j) ?arrays) [0..<length positions] =
      map (\<lambda>j. map (\<lambda>i. f i (positions ! j)) [0..<c]) [0..<length positions]"
    by simp
  ultimately show ?thesis
    by simp
qed


lemma resample_to_16k_Arr2:
  assumes "sample_rate \<noteq> 16000"
  shows "resample_to_16k np (Arr2 c rows) sample_rate =
     (case true_div 16000 sample_rate of
        Inl e \<Rightarrow> Inl (Raised e)
      | Inr ratio \<Rightarrow>
          (case np_linspace np 0 (int (length rows) - 1) (new_length (length rows) ratio) of
             Inl e \<Rightarrow> Inl (Raised e)
           | Inr positions \<Rightarrow>
               if c = 0 then Inl (Raised (Exn ''ValueError'' ''need at least one array to stack''))
               else if rows = []
               then Inl (Raised (Exn ''ValueError'' ''array of sample points is empty''))
               else Inr (Arr2 c (map (\<lambda>j. map (\<lambda>i. astype_float32 np
                                   (interp_at np (positions ! j) (np_arange np (length rows))
                                      (column i rows))) [0..<c]) [0..<length positions]),
                         16000)))"
proof (cases "c = 0")
  case True
  with assms show ?thesis
    by (simp add: resample_to_16k_def Let_def np_stack_axis1_def split: sum.splits)
next
  case c: False
  show ?thesis
  proof (cases "rows = []")
    case True
    with assms c show ?thesis
      by (simp add: resample_to_16k_def Let_def interp_channels_empty split: sum.splits)
  next
    case False
    with assms c show ?thesis
      by (simp add: resample_to_16k_def Let_def interp_channels_rows np_stack_axis1_channels
            comp_def split: sum.splits)
  qed
qed





text \<open>
  The binary64 arithmetic on known values: a third and a tenth as Python prints their
  significands, three thirds, which round to one, and forty-nine forty-ninths, which
  stay below one.
\<close>

lemma binary64_values:
  "true_div 1 3 = Inr (6004799503160661, - 54)"
  "true_div 1 10 = Inr (7205759403792794, - 56)"
  "new_length 3 (round_float64 16000 48000 0) = 1"
  "new_length 49 (round_float64 16000 784000 0) = 0"
  "new_length 7 (round_float64 (- 16000) 64000 0) = - 1"
  by code_simp+












subsection \<open>More than two channels\<close>

lemma with_prefix_simps [simp]:
  "trace (with_prefix pre s) = pre @ trace s"
  "world (with_prefix pre s) = world s"
  "models (with_prefix pre s) = models s"
  "cpu_only_languages (with_prefix pre s) = cpu_only_languages s"
  "vad (with_prefix pre s) = vad s"
  "language (with_prefix pre s) = language s"
  "russian_model_name (with_prefix pre s) = russian_model_name s"
  "english_model_name (with_prefix pre s) = english_model_name s"
  by (simp_all add: with_prefix_def)

lemma with_prefix_updates [simp]:
  "(with_prefix pre s)\<lparr>world := w\<rparr> = with_prefix pre (s\<lparr>world := w\<rparr>)"
  "(with_prefix pre s)\<lparr>models := ms\<rparr> = with_prefix pre (s\<lparr>models := ms\<rparr>)"
  "(with_prefix pre s)\<lparr>cpu_only_languages := c\<rparr> = with_prefix pre (s\<lparr>cpu_only_languages := c\<rparr>)"
  "log_event ev (with_prefix pre s) = with_prefix pre (log_event ev s)"
  by (simp_all add: with_prefix_def log_event_def)

lemma call_recognize_prefix:
  "call_recognize X m audio sample_rate (with_prefix pre s) =
     (fst (call_recognize X m audio sample_rate s),
      with_prefix pre (snd (call_recognize X m audio sample_rate s)))"
  by (simp add: call_recognize_def case_prod_beta)

lemma call_load_model_prefix:
  "call_load_model X name p (with_prefix pre s) =
     (fst (call_load_model X name p s), with_prefix pre (snd (call_load_model X name p s)))"
  by (simp add: call_load_model_def case_prod_beta)

lemma call_with_vad_prefix:
  "call_with_vad X m v (with_prefix pre s) =
     (fst (call_with_vad X m v s), with_prefix pre (snd (call_with_vad X m v s)))"
  by (simp add: call_with_vad_def case_prod_beta)

lemma store_with_vad_prefix:
  "store_with_vad X lang m (with_prefix pre s) =
     (fst (store_with_vad X lang m s), with_prefix pre (snd (store_with_vad X lang m s)))"
  by (simp add: store_with_vad_def call_with_vad_prefix case_prod_beta split: sum.splits)


lemma load_model_prefix:
  "ASREngine_load_model X lang name force_cpu (with_prefix pre s) =
     (fst (ASREngine_load_model X lang name force_cpu s),
      with_prefix pre (snd (ASREngine_load_model X lang name force_cpu s)))"
  by (simp add: ASREngine_load_model_def call_load_model_prefix store_with_vad_prefix
        case_prod_beta Let_def split: sum.splits)

lemma run_recognition_prefix:
  "ASREngine_run_recognition X m audio sample_rate lang (with_prefix pre s) =
     (fst (ASREngine_run_recognition X m audio sample_rate lang s),
      with_prefix pre (snd (ASREngine_run_recognition X m audio sample_rate lang s)))"
  by (simp add: ASREngine_run_recognition_def call_recognize_prefix case_prod_beta
        split: sum.splits)


lemma detect_loop_prefix:
  "detect_loop X sample sample_rate ms best_lang best_len (with_prefix pre s) =
     (fst (detect_loop X sample sample_rate ms best_lang best_len s),
      with_prefix pre (snd (detect_loop X sample sample_rate ms best_lang best_len s)))"
proof (induction ms arbitrary: best_lang best_len s)
  case Nil
  show ?case by simp
next
  case (Cons p ms)
  obtain l m where p: "p = (l, m)" by (cases p)
  show ?case
    by (simp add: p call_recognize_prefix case_prod_beta Let_def Cons.IH split: sum.splits)
qed

lemma requested_language_prefix [simp]:
  "requested_language language_arg (with_prefix pre s) = requested_language language_arg s"
  by (simp add: requested_language_def split: option.splits)

lemma resolve_language_prefix:
  "resolve_language X audio sample_rate language_arg (with_prefix pre s) =
     (fst (resolve_language X audio sample_rate language_arg s),
      with_prefix pre (snd (resolve_language X audio sample_rate language_arg s)))"
  by (simp add: resolve_language_def ASREngine_detect_language_def Let_def detect_loop_prefix)

lemma recognize_as_prefix:
  "recognize_as X audio sample_rate lang (with_prefix pre s) =
     (fst (recognize_as X audio sample_rate lang s),
      with_prefix pre (snd (recognize_as X audio sample_rate lang s)))"
  by (simp add: recognize_as_def run_recognition_prefix load_model_prefix
        ASREngine_model_name_for_language_def case_prod_beta
        split: option.splits sum.splits)

lemma recognize_prefix:
  "ASREngine_recognize X audio sample_rate language_arg (with_prefix pre s) =
     (fst (ASREngine_recognize X audio sample_rate language_arg s),
      with_prefix pre (snd (ASREngine_recognize X audio sample_rate language_arg s)))"
  by (simp add: ASREngine_recognize_def resolve_language_prefix recognize_as_prefix
        case_prod_beta)


lemma with_prefix_untraced: "with_prefix (trace s) (untraced s) = s"
  by (simp add: with_prefix_def untraced_def)

lemma untraced_with_prefix [simp]: "untraced (with_prefix pre s) = untraced s"
  by (simp add: with_prefix_def untraced_def)

lemma untraced_log_event [simp]: "untraced (log_event ev s) = untraced s"
  by (simp add: untraced_def log_event_def)

lemma recognize_untraced:
  assumes "untraced s' = untraced s"
  shows "fst (ASREngine_recognize X audio sample_rate language_arg s') =
           fst (ASREngine_recognize X audio sample_rate language_arg s) \<and>
         untraced (snd (ASREngine_recognize X audio sample_rate language_arg s')) =
           untraced (snd (ASREngine_recognize X audio sample_rate language_arg s))"
proof -
  have "ASREngine_recognize X audio sample_rate language_arg t =
      (fst (ASREngine_recognize X audio sample_rate language_arg (untraced t)),
       with_prefix (trace t)
         (snd (ASREngine_recognize X audio sample_rate language_arg (untraced t))))" for t
    using recognize_prefix [of X audio sample_rate language_arg "trace t" "untraced t"]
    by (simp add: with_prefix_untraced)
  from this [of s] this [of s'] assms show ?thesis
    by simp
qed

lemma evolves_trace_subset:
  assumes "evolves l s t"
  shows "set (trace s) \<subseteq> set (trace t)"
proof -
  have "take (length (trace s)) (trace t) = trace s"
    using assms by (simp add: evolves_def)
  then show ?thesis
    by (metis set_take_subset)
qed

lemma column_take:
  assumes "i < n"
  shows "column i (map (take n) rows) = column i rows"
  using assms by (simp add: column_def)

lemma recognize_channels_first_two:
  assumes "2 < c"
  shows "fst (recognize_channels X (Arr2 c rows) sample_rate s) =
           fst (recognize_channels X (Arr2 2 (map (take 2) rows)) sample_rate s) \<and>
         Warning (ChannelsWarning c) \<in>
           set (trace (snd (recognize_channels X (Arr2 c rows) sample_rate s)))"
proof -
  let ?s1 = "log_event (Warning (ChannelsWarning c)) s"
  let ?mic = "column 0 rows" and ?speaker = "column (Suc 0) rows"
  obtain r1 t1 where m1: "ASREngine_recognize X ?mic sample_rate None ?s1 = (r1, t1)"
    by fastforce
  obtain r1' t1' where m2: "ASREngine_recognize X ?mic sample_rate None s = (r1', t1')"
    by fastforce
  obtain r2 t2 where s1: "ASREngine_recognize X ?speaker sample_rate None t1 = (r2, t2)"
    by fastforce
  obtain r2' t2' where s2: "ASREngine_recognize X ?speaker sample_rate None t1' = (r2', t2')"
    by fastforce
  have "untraced ?s1 = untraced s"
    by simp
  from recognize_untraced [OF this, of X ?mic sample_rate None] m1 m2
  have r1: "r1 = r1'" and t1: "untraced t1 = untraced t1'"
    by simp_all
  from recognize_untraced [OF t1, of X ?speaker sample_rate None] s1 s2
  have r2: "r2 = r2'"
    by simp
  have w1: "Warning (ChannelsWarning c) \<in> set (trace t1)"
    using evolves_trace_subset [OF evolves_recognize [OF m1]] by auto
  then have w2: "Warning (ChannelsWarning c) \<in> set (trace t2)"
    using evolves_trace_subset [OF evolves_recognize [OF s1]] by auto
  have cols: "column 0 (map (take 2) rows) = ?mic" "column (Suc 0) (map (take 2) rows) = ?speaker"
    by (simp_all add: column_take)
  have left: "recognize_channels X (Arr2 c rows) sample_rate s =
      (case r1 of Inl e \<Rightarrow> (Inl e, t1)
       | Inr mic_segments \<Rightarrow>
           (case r2 of Inl e \<Rightarrow> (Inl e, t2)
            | Inr speaker_segments \<Rightarrow>
                (Inr (sort_key segment_key
                        (with_source mic_segments MIC_SOURCE @
                         with_source speaker_segments SPEAKER_SOURCE)), t2)))"
    using assms by (simp add: recognize_channels_def m1 s1 split: sum.splits)
  have right: "recognize_channels X (Arr2 2 (map (take 2) rows)) sample_rate s =
      (case r1' of Inl e \<Rightarrow> (Inl e, t1')
       | Inr mic_segments \<Rightarrow>
           (case r2' of Inl e \<Rightarrow> (Inl e, t2')
            | Inr speaker_segments \<Rightarrow>
                (Inr (sort_key segment_key
                        (with_source mic_segments MIC_SOURCE @
                         with_source speaker_segments SPEAKER_SOURCE)), t2')))"
    by (simp add: recognize_channels_def cols m2 s2 split: sum.splits)
  show ?thesis
    using w1 w2 by (simp add: left right r1 r2 split: sum.splits)
qed


lemma resample_first_two:
  assumes "2 \<le> c"
  shows "resample_to_16k np (Arr2 2 (map (take 2) rows)) sample_rate =
           (case resample_to_16k np (Arr2 c rows) sample_rate of
              Inl e \<Rightarrow> Inl e
            | Inr (a, r) \<Rightarrow> Inr (first_two_channels a, r))"
proof (cases "sample_rate = 16000")
  case True
  with assms show ?thesis
    by (simp add: resample_to_16k_def min_def)
next
  case False
  have two: "[0..<2] = [0, Suc 0]"
    by (simp add: upt_conv_Cons)
  have "take 2 (map h [0..<c]) = [h 0, h (Suc 0)]" for h :: "nat \<Rightarrow> 'a"
    using assms by (simp add: take_map two)
  then show ?thesis
    using assms
    by (simp add: resample_to_16k_Arr2 [OF False] two column_take comp_def min_def
          split: sum.splits)
qed

lemma resample_keeps_channels:
  assumes "resample_to_16k np (Arr2 c rows) sample_rate = Inr (a, r)"
  shows "\<exists>rows'. a = Arr2 c rows'"
proof (cases "sample_rate = 16000")
  case True
  with assms show ?thesis
    by (auto simp: resample_to_16k_def)
next
  case False
  from assms show ?thesis
    unfolding resample_to_16k_Arr2 [OF False]
    by (auto split: sum.split_asm if_split_asm)
qed

text \<open>
  Claim C9. A transcription of a buffer with more than two channels returns what the
  transcription of its first two channels returns, the same segments and the same full
  text or the same exception. When the resampling and the initialization of the engine
  have succeeded, it has logged the warning that only the first two channels are used.
\<close>

theorem extra_channels_ignored:
  assumes more: "2 < c"
    and read: "sf_read audio_path = Inr (Arr2 c rows, sample_rate)"
    and read2: "other_read other_path = Inr (first_two_channels (Arr2 c rows), sample_rate)"
  shows "fst (transcribe X np sf_read audio_path lang russian_model english_model w) =
           fst (transcribe X np other_read other_path lang russian_model english_model w) \<and>
         (\<not> isl (resample_to_16k np (Arr2 c rows) sample_rate) \<and>
          \<not> isl (fst (ASREngine_initialize X (ASREngine russian_model english_model lang w))) \<longrightarrow>
            Warning (ChannelsWarning c) \<in>
              set (snd (snd (transcribe X np sf_read audio_path lang russian_model english_model w))))"
proof -
  have c2: "min c 2 = 2" "2 \<le> c"
    using more by simp_all
  note two = resample_first_two [OF c2(2), of np rows sample_rate]
  show ?thesis
  proof (cases "resample_to_16k np (Arr2 c rows) sample_rate")
    case (Inl e)
    with two show ?thesis
      by (simp add: transcribe_def transcribe_audio_def read read2 c2)
  next
    case (Inr p)
    obtain a r where p: "p = (a, r)" by (cases p)
    with Inr resample_keeps_channels obtain rows' where a: "a = Arr2 c rows'"
      by blast
    have two': "resample_to_16k np (Arr2 2 (map (take 2) rows)) sample_rate =
        Inr (Arr2 2 (map (take 2) rows'), r)"
      using two Inr p a c2 by simp
    obtain ri s1 where init: "ASREngine_initialize X (ASREngine russian_model english_model lang w)
        = (ri, s1)"
      by fastforce
    show ?thesis
    proof (cases ri)
      case (Inl e)
      then show ?thesis
        by (simp add: transcribe_def transcribe_audio_def read read2 c2 Inr p a two' init)
    next
      case loaded: (Inr loaded)
      from recognize_channels_first_two [OF more, of X rows' r s1]
      show ?thesis
        by (simp add: transcribe_def transcribe_audio_def read read2 c2 Inr p a two' init loaded
              case_prod_beta split: sum.splits)
    qed
  qed
qed


text \<open>
  The file with three channels gives the transcript of the stereo file, and the
  warning for three channels is in its log.
\<close>

theorem extra_channels_ignored_witness:
  "(2::nat) < 3 \<and>
   demo_sf_read ''surround.wav'' = Inr (Arr2 3 [[1 / 5, 0, 9], [1 / 2, 1 / 4, 8]], 16000) \<and>
   demo_sf_read ''stereo.wav''
     = Inr (first_two_channels (Arr2 3 [[1 / 5, 0, 9], [1 / 2, 1 / 4, 8]]), 16000) \<and>
   \<not> isl (resample_to_16k demo_numpy (Arr2 3 [[1 / 5, 0, 9], [1 / 2, 1 / 4, 8]]) 16000) \<and>
   \<not> isl (fst (ASREngine_initialize demo_onnx
                 (ASREngine ''gigaam-v3-rnnt'' ''whisper-base'' ''en'' 0))) \<and>
   fst (transcribe demo_onnx demo_numpy demo_sf_read ''surround.wav'' ''en''
          ''gigaam-v3-rnnt'' ''whisper-base'' 0)
     = Inr ([\<lparr> seg_start = 0, seg_end = 1, seg_text = ascii ''whisper-base'',
                 seg_language = ''en'', seg_source = Some ''speaker/speak'' \<rparr>,
              \<lparr> seg_start = 1 / 5, seg_end = 6 / 5, seg_text = ascii ''whisper-base'',
                 seg_language = ''en'', seg_source = Some ''mic/speak'' \<rparr>],
             ascii ''whisper-base whisper-base'') \<and>
   Warning (ChannelsWarning 3) \<in>
     set (snd (snd (transcribe demo_onnx demo_numpy demo_sf_read ''surround.wav'' ''en''
                      ''gigaam-v3-rnnt'' ''whisper-base'' 0)))"
proof -
  have more: "(2::nat) < 3" by simp
  have read: "demo_sf_read ''surround.wav'' = Inr (Arr2 3 [[1 / 5, 0, 9], [1 / 2, 1 / 4, 8]], 16000)"
    by (simp add: demo_sf_read_def)
  have read2: "demo_sf_read ''stereo.wav''
     = Inr (first_two_channels (Arr2 3 [[1 / 5, 0, 9], [1 / 2, 1 / 4, 8]]), 16000)"
    by (simp add: demo_sf_read_def)
  have resampled: "\<not> isl (resample_to_16k demo_numpy (Arr2 3 [[1 / 5, 0, 9], [1 / 2, 1 / 4, 8]]) 16000)"
    by (simp add: resample_to_16k_def)
  have initialized: "\<not> isl (fst (ASREngine_initialize demo_onnx
                 (ASREngine ''gigaam-v3-rnnt'' ''whisper-base'' ''en'' 0)))"
    by (simp add: engine_defs demo_defs)
  show ?thesis
    using extra_channels_ignored [where sf_read = demo_sf_read and other_read = demo_sf_read
        and audio_path = "''surround.wav''" and other_path = "''stereo.wav''"
        and X = demo_onnx and np = demo_numpy and lang = "''en''"
        and russian_model = "''gigaam-v3-rnnt''" and english_model = "''whisper-base''" and w = 0,
        OF more read read2]
      read read2 resampled initialized
    by (simp add: demo_stereo)
qed

end
